theory Spec2Isabelle
  imports Main "HOL-Library.Word" "HOL-Library.Multiset"
begin

unbundle bit_operations_syntax

section \<open>The intermediate representation the passes work on\<close>

text \<open>
  Types, attributes, SSA values and operations, as far as the passes read and build them.
  A value is identified by a number and carries its type; an operation has a name, operands,
  results, an attribute dictionary and regions; a region is a list of blocks; a block has
  arguments and operations, the last one being its terminator.
\<close>

datatype layout = IdentityLayout | StridedLayout string

datatype ty =
    IntegerType nat
  | FloatType nat
  | IndexType
  | NoneType
  | ComplexType ty
  | TupleType "ty list"
  | MemRefType "int list" ty layout nat
  | LLVMPointerType
  | LLVMStructType "ty list"
  | LLVMArrayType ty nat
  | LLVMVoidType
  | FunctionType "ty list" "ty list"
  | OpaqueType
  | TypeVarType
  | DialectType string

text \<open>\<open>Type::isIntOrFloat()\<close>: an \<open>IntegerType\<close> or a \<open>FloatType\<close>; \<open>index\<close> is neither.\<close>

definition isIntOrFloat :: "ty \<Rightarrow> bool" where
  "isIntOrFloat t = (case t of IntegerType w \<Rightarrow> True | FloatType w \<Rightarrow> True | _ \<Rightarrow> False)"

datatype float_const = FloatZero | FloatOne | FloatNegInf | FloatPosInf

datatype attr =
    IntegerAttr ty int
  | FloatAttr ty float_const
  | StringAttr string
  | UnitAttr
  | ParallelAttr
  | ArrayAttr "attr list"
  | TypeAttr ty
  | SymbolRefAttr string
  | OtherAttr string

datatype val = Val (vid: nat) (vty: ty)

datatype arith_kind =
    AddF | MulF | MaximumF | MinimumF
  | AddI | OrI | XOrI | AndI | MaxUI | MinUI | MaxSI | MinSI | MulI
  | SubI | DivSI

datatype trait = ViewLikeOpInterface | ConstantLike

datatype opname =
    BuiltinModule | FuncFunc | FuncReturn | FuncCall | FuncConstant | LLVMFunc
  | ScfFor | ScfWhile | ScfIf | ScfParallel | ScfReduce | ScfReduceReturn | ScfYield
  | NumbaParallel | NumbaYield | NumbaEnvironmentRegion | NumbaMemrefApplyOffset
  | MemrefAlloc | MemrefAlloca | MemrefDealloc | MemrefLoad | MemrefStore
  | MemrefSubView | MemrefCast | MemrefDim
  | ArithConstant | Arith arith_kind
  | LLVMAlloca | LLVMConstant | LLVMGEP | LLVMStore | LLVMLoad | LLVMBitcast | LLVMUndef
  | LLVMInsertValue | LLVMExtractValue | LLVMReturn | LLVMZero | LLVMSDiv | LLVMMul | LLVMCall
  | UnrealizedConversionCast | CfBranch
  | OtherOp string "trait list"

datatype op =
  Op (opName: opname) (operands: "val list") (results: "val list")
     (attrs: "(string \<times> attr) list") (regions: "(val list \<times> op list) list list")

type_synonym block = "val list \<times> op list"
type_synonym region = "block list"

text \<open>\<open>op->hasTrait<...>()\<close> and \<open>dyn_cast<ViewLikeOpInterface>\<close>, for the operations named here.\<close>

definition hasTrait :: "opname \<Rightarrow> trait \<Rightarrow> bool" where
  "hasTrait n t =
     (case n of
        MemrefSubView \<Rightarrow> t = ViewLikeOpInterface
      | MemrefCast \<Rightarrow> t = ViewLikeOpInterface
      | ArithConstant \<Rightarrow> t = ConstantLike
      | LLVMConstant \<Rightarrow> t = ConstantLike
      | FuncConstant \<Rightarrow> t = ConstantLike
      | OtherOp name traits \<Rightarrow> t \<in> set traits
      | _ \<Rightarrow> False)"

text \<open>\<open>op->getAttr(name)\<close> and \<open>op->getAttrOfType<IntegerAttr>(name)\<close>.\<close>

definition getAttr :: "op \<Rightarrow> string \<Rightarrow> attr option" where
  "getAttr operation name = map_of (attrs operation) name"

definition getIntegerAttr :: "op \<Rightarrow> string \<Rightarrow> int option" where
  "getIntegerAttr operation name =
     (case getAttr operation name of
        Some (IntegerAttr t i) \<Rightarrow> Some i
      | _ \<Rightarrow> None)"

definition getMaxConcurrencyName :: string where
  "getMaxConcurrencyName = ''numba.max_concurrency''"

text \<open>
  \<open>op->getParentOfType<T>()\<close>, on the ancestors of an operation listed from its parent
  outwards: the nearest ancestor that is a \<open>T\<close>.
\<close>

definition getParentOfType :: "op list \<Rightarrow> opname \<Rightarrow> op option" where
  "getParentOfType ancestors name = find (\<lambda>a. opName a = name) ancestors"

text \<open>\<open>block.without_terminator()\<close> and \<open>block.getTerminator()\<close>.\<close>

definition without_terminator :: "block \<Rightarrow> op list" where
  "without_terminator b = butlast (snd b)"

definition getTerminator :: "block \<Rightarrow> op option" where
  "getTerminator b = (if snd b = [] then None else Some (last (snd b)))"

text \<open>\<open>llvm::hasSingleElement\<close>.\<close>

definition hasSingleElement :: "'a list \<Rightarrow> bool" where
  "hasSingleElement xs = (length xs = 1)"

text \<open>
  A function of a pass either returns a value or ends the compiler: in a failed \<open>assert\<close>,
  or in \<open>llvm_unreachable\<close>.
\<close>

datatype 'a run = Done 'a | AssertionFailed | Unreachable string

text \<open>Sequencing of functions that may end in a failed assertion.\<close>

definition bindRun :: "'a run \<Rightarrow> ('a \<Rightarrow> 'b run) \<Rightarrow> 'b run" where
  "bindRun r f =
     (case r of
        Done x \<Rightarrow> f x
      | AssertionFailed \<Rightarrow> AssertionFailed
      | Unreachable msg \<Rightarrow> Unreachable msg)"

text \<open>
  The builder: the next unused value number and the operations created so far, in order.
  \<open>create\<close> makes an operation with one result, \<open>create0\<close> one with none.
\<close>

record builder =
  nextId :: nat
  created :: "op list"

definition create :: "opname \<Rightarrow> val list \<Rightarrow> ty \<Rightarrow> (string \<times> attr) list \<Rightarrow> builder \<Rightarrow>
    val \<times> builder" where
  "create name args type as b =
     (Val (nextId b) type,
      \<lparr>nextId = Suc (nextId b),
       created = created b @ [Op name args [Val (nextId b) type] as []]\<rparr>)"

definition create0 :: "opname \<Rightarrow> val list \<Rightarrow> (string \<times> attr) list \<Rightarrow> builder \<Rightarrow> builder" where
  "create0 name args as b = b\<lparr>created := created b @ [Op name args [] as []]\<rparr>"

text \<open>
  What a pattern does: it returns \<open>mlir::failure()\<close> or \<open>mlir::success()\<close> to the rewrite
  driver, or it does not return because an \<open>assert\<close> fails in its body or in a library
  function it calls (\<open>Aborted\<close>: the compiler ends there).
\<close>

datatype logical_result = Failure | Success | Aborted

section \<open>Parallel-Loop Rewriter (ParallelToTbb.cpp, struct ParallelToTbb)\<close>

text \<open>
  An \<open>scf.parallel\<close> as the pattern reads it through \<open>mlir::scf::ParallelOp\<close>: the four
  operand groups, the results, the body block (induction variables and the operations before
  the terminator) and the \<open>scf.reduce\<close> terminator (its operands and one region per result).
\<close>

record scf_parallel =
  lowerBound :: "val list"
  upperBound :: "val list"
  step :: "val list"
  initVals :: "val list"
  resultVals :: "val list"
  inductionVars :: "val list"
  body :: "op list"
  reduceOperands :: "val list"
  reductions :: "region list"

definition getResultTypes :: "scf_parallel \<Rightarrow> ty list" where
  "getResultTypes p = map vty (resultVals p)"

text \<open>\<open>getReduceType\<close>: a one-dimensional memref of \<open>cnt\<close> (the source's \<open>count\<close>) elements, or a null type.\<close>

definition getReduceType :: "ty \<Rightarrow> int \<Rightarrow> ty option" where
  "getReduceType type cnt =
     (if isIntOrFloat type then Some (MemRefType [cnt] type IdentityLayout 0) else None)"

text \<open>
  \<open>mlir::arith::getNeutralElement\<close> of the MLIR library (\<open>ArithOps.cpp\<close>), which the
  pattern calls on the first operation of a reduction block.  It maps the operation to its
  kind (\<open>std::nullopt\<close> for an operation that is none of the kinds below) and returns
  \<open>getIdentityValueAttr\<close> of the kind on the type of the first result:
  \<^item> \<open>addf\<close>, \<open>addi\<close>, \<open>ori\<close>, \<open>xori\<close> (which shares the kind of \<open>ori\<close>) and \<open>maxui\<close>:
    \<open>Builder::getZeroAttr\<close>, the zero of a float, integer or \<open>index\<close> type and the null
    attribute on every other type of this model (the library also builds a dense zero for
    a vector or ranked tensor type; the model has no such types);
  \<^item> \<open>muli\<close>: \<open>getIntegerAttr(type, 1)\<close>, on an integer or \<open>index\<close> type;
  \<^item> \<open>andi\<close>, \<open>maxsi\<close>, \<open>minsi\<close>, \<open>minui\<close>: the value is computed from the width of
    \<open>llvm::cast<IntegerType>(type)\<close>, which asserts on any type that is not an integer type,
    \<open>index\<close> among them;
  \<^item> \<open>mulf\<close>, \<open>maximumf\<close>, \<open>minimumf\<close>: likewise through the float type (the infinities
    are those of an operation without the \<open>ninf\<close> fast-math flag).

  A \<open>TypedAttr\<close> is a handle that may be null: \<open>None\<close> is the null attribute.  The integer
  of an \<open>IntegerAttr\<close> stands for its bit pattern, read modulo \<open>2 ^ width\<close> (\<open>-1\<close> is all
  ones).
\<close>

type_synonym typed_attr = "attr option"

definition getZeroAttr :: "ty \<Rightarrow> typed_attr" where
  "getZeroAttr t =
     (case t of
        FloatType w \<Rightarrow> Some (FloatAttr t FloatZero)
      | IndexType \<Rightarrow> Some (IntegerAttr t 0)
      | IntegerType w \<Rightarrow> Some (IntegerAttr t 0)
      | _ \<Rightarrow> None)"

definition neutralElement :: "arith_kind \<Rightarrow> ty \<Rightarrow> typed_attr option run" where
  "neutralElement k t =
     (case k of
        AddF \<Rightarrow> Done (Some (getZeroAttr t))
      | AddI \<Rightarrow> Done (Some (getZeroAttr t))
      | OrI \<Rightarrow> Done (Some (getZeroAttr t))
      | XOrI \<Rightarrow> Done (Some (getZeroAttr t))
      | MaxUI \<Rightarrow> Done (Some (getZeroAttr t))
      | MulI \<Rightarrow>
          (case t of
             IntegerType w \<Rightarrow> Done (Some (Some (IntegerAttr t 1)))
           | IndexType \<Rightarrow> Done (Some (Some (IntegerAttr t 1)))
           | _ \<Rightarrow> AssertionFailed)
      | AndI \<Rightarrow>
          (case t of
             IntegerType w \<Rightarrow> Done (Some (Some (IntegerAttr t (- 1))))
           | _ \<Rightarrow> AssertionFailed)
      | MinUI \<Rightarrow>
          (case t of
             IntegerType w \<Rightarrow> Done (Some (Some (IntegerAttr t (- 1))))
           | _ \<Rightarrow> AssertionFailed)
      | MaxSI \<Rightarrow>
          (case t of
             IntegerType w \<Rightarrow> Done (Some (Some (IntegerAttr t (- (2 ^ (w - 1))))))
           | _ \<Rightarrow> AssertionFailed)
      | MinSI \<Rightarrow>
          (case t of
             IntegerType w \<Rightarrow> Done (Some (Some (IntegerAttr t (2 ^ (w - 1) - 1))))
           | _ \<Rightarrow> AssertionFailed)
      | MulF \<Rightarrow>
          (case t of
             FloatType w \<Rightarrow> Done (Some (Some (FloatAttr t FloatOne)))
           | _ \<Rightarrow> AssertionFailed)
      | MaximumF \<Rightarrow>
          (case t of
             FloatType w \<Rightarrow> Done (Some (Some (FloatAttr t FloatNegInf)))
           | _ \<Rightarrow> AssertionFailed)
      | MinimumF \<Rightarrow>
          (case t of
             FloatType w \<Rightarrow> Done (Some (Some (FloatAttr t FloatPosInf)))
           | _ \<Rightarrow> AssertionFailed)
      | _ \<Rightarrow> Done None)"

text \<open>\<open>op->getResult(0)\<close> asserts that the operation has a result.\<close>

definition getNeutralElement :: "op \<Rightarrow> typed_attr option run" where
  "getNeutralElement operation =
     (case opName operation of
        Arith k \<Rightarrow>
          (case k of
             SubI \<Rightarrow> Done None
           | DivSI \<Rightarrow> Done None
           | _ \<Rightarrow> (case results operation of
                     [] \<Rightarrow> AssertionFailed
                   | r # others \<Rightarrow> neutralElement k (vty r)))
      | _ \<Rightarrow> Done None)"

text \<open>
  \<open>getReduceInitVal\<close>: the block must hold exactly one operation before its terminator;
  the neutral element is asked of the first operation of the block.  The \<open>type\<close> parameter
  is not used.
\<close>

definition getReduceInitVal :: "ty \<Rightarrow> block \<Rightarrow> typed_attr option run" where
  "getReduceInitVal type reduceBlock =
     (if \<not> hasSingleElement (without_terminator reduceBlock) then Done None
      else getNeutralElement (hd (snd reduceBlock)))"

text \<open>\<open>isInsideParalleRegion\<close>: the direct parent is an environment region tagged parallel.\<close>

definition isInsideParalleRegion :: "op \<Rightarrow> bool" where
  "isInsideParalleRegion parent =
     (opName parent = NumbaEnvironmentRegion \<and> getAttr parent ''environment'' = Some ParallelAttr)"

text \<open>
  The loop \<open>for (mlir::Region &region : reduceOp.getReductions())\<close>: \<open>Done None\<close> is the
  \<open>return mlir::failure()\<close> inside it; \<open>collected\<close> is the source's \<open>initVals\<close>, its length
  \<open>ind\<close>.  \<open>op.getResult(ind)\<close> asserts that the loop has a result \<open>ind\<close>.
\<close>

fun collectInitVals ::
    "ty list \<Rightarrow> region list \<Rightarrow> typed_attr list \<Rightarrow> typed_attr list option run" where
  "collectInitVals resultTypes [] collected = Done (Some collected)"
| "collectInitVals resultTypes (region # rest) collected =
     (if \<not> hasSingleElement region then Done None
      else if \<not> length collected < length resultTypes then AssertionFailed
      else bindRun (getReduceInitVal (resultTypes ! length collected) (hd region))
             (\<lambda>reduceInitVal.
                case reduceInitVal of
                  None \<Rightarrow> Done None
                | Some initVal \<Rightarrow> collectInitVals resultTypes rest (collected @ [initVal])))"

text \<open>
  \<open>reduceBodyBuilder\<close> asserts that the block of a reduction region has two arguments,
  takes the terminator as an \<open>scf.reduce.return\<close> (a \<open>cast\<close>), looks its operand up in the
  mapping and asserts that it is there: the mapping holds the two block arguments and the
  results of the operations cloned from the block.
\<close>

definition returnIsMapped :: "block \<Rightarrow> bool" where
  "returnIsMapped reduceOpBody =
     (case getTerminator reduceOpBody of
        None \<Rightarrow> False
      | Some ret \<Rightarrow>
          opName ret = ScfReduceReturn \<and>
          (case operands ret of
             [res] \<Rightarrow> res \<in> set (fst reduceOpBody) \<union>
                              set (concat (map results (without_terminator reduceOpBody)))
           | _ \<Rightarrow> False))"

text \<open>
  The assertions of the rewrite: as many neutral elements as the loop has results
  (\<open>assert(initVals.size() == op.getNumResults())\<close>), as many initial values as results
  (\<open>assert(args.size() == reduceVars.size())\<close> on the iteration arguments of the combining
  loop), and those of \<open>reduceBodyBuilder\<close> for every reduction region.  The initialising
  loop builds an \<open>arith.constant\<close> from every neutral element, which reads the type of the
  attribute: none of them may be null.
\<close>

definition assertionsHold :: "scf_parallel \<Rightarrow> typed_attr list \<Rightarrow> bool" where
  "assertionsHold p neutral \<longleftrightarrow>
     length neutral = length (resultVals p) \<and>
     length (initVals p) = length (resultVals p) \<and>
     list_all (\<lambda>initVal. initVal \<noteq> None) neutral \<and>
     list_all (\<lambda>region. length (fst (hd region)) = 2 \<and> returnIsMapped (hd region))
       (reductions p)"

text \<open>
  What the rewrite puts in the place of the loop, by the builder calls of the source:
  one \<open>memref.alloca\<close> per result at the alloca insertion point (\<open>reduceVars\<close>); the
  initialisation \<open>scf.for\<close> from \<open>0\<close> to \<open>maxConcurrency\<close> in steps of \<open>1\<close>, its body storing
  \<open>initVals[i]\<close> into \<open>reduceVars[i]\<close> at the loop index; the \<open>numba_util.parallel\<close> over the
  bounds and step of the loop, its body loading \<open>reduceVars[i]\<close> at the thread index,
  running a clone of the loop on the bounds of the slice from the loaded values, and storing
  its results at the thread index; the combining \<open>scf.for\<close> over the same \<open>0..maxConcurrency\<close>
  with the initial values of the loop as iteration arguments, its body loading
  \<open>reduceVars[i]\<close> at the loop index and cloning the operations of reduction region \<open>i\<close> with
  its first argument mapped to the iteration argument and its second to the loaded value;
  the results of that loop replace those of the original loop.
\<close>

record tbb_ir =
  reduceVars :: "ty list"
  reduceLowerBound :: int
  reduceUpperBound :: int
  reduceStep :: int
  initStores :: "attr list"
  parallelLowerBound :: "val list"
  parallelUpperBound :: "val list"
  parallelStep :: "val list"
  clonedLoop :: scf_parallel
  combineInitVals :: "val list"
  combineRegions :: "region list"

text \<open>
  \<open>ParallelToTbb::matchAndRewrite\<close>, for a loop with the given parent and further
  ancestors (from the parent outwards).  The second component is what the rewriter has
  created when the pattern returns; \<open>None\<close> with \<open>Failure\<close>: the IR is as it was.
  \<open>Aborted\<close>: an assertion has failed, in the library's \<open>getNeutralElement\<close> (before the
  rewriter has created anything) or in the rewrite itself, or the rewrite has read a null
  attribute, and the compiler ends.
\<close>

definition ParallelToTbb_matchAndRewrite ::
    "op \<Rightarrow> op list \<Rightarrow> scf_parallel \<Rightarrow> logical_result \<times> tbb_ir option" where
  "ParallelToTbb_matchAndRewrite parent ancestors p =
     (if opName parent = NumbaParallel then (Failure, None)
      else
     (let needParallel = (isInsideParalleRegion parent \<or>
                          getParentOfType (parent # ancestors) ScfParallel = None)
      in if \<not> needParallel then (Failure, None)
      else case getParentOfType (parent # ancestors) FuncFunc of
             None \<Rightarrow> (Failure, None)
           | Some func \<Rightarrow>
     (let maxConcurrency = (case getIntegerAttr func getMaxConcurrencyName of
                              Some mc \<Rightarrow> mc | None \<Rightarrow> 0)
      in if maxConcurrency \<le> 1 then (Failure, None)
      else if \<exists>type \<in> set (getResultTypes p). getReduceType type maxConcurrency = None
      then (Failure, None)
      else case collectInitVals (getResultTypes p) (reductions p) [] of
             AssertionFailed \<Rightarrow> (Aborted, None)
           | Unreachable msg \<Rightarrow> (Aborted, None)
           | Done None \<Rightarrow> (Failure, None)
           | Done (Some neutral) \<Rightarrow>
               if \<not> assertionsHold p neutral
               then (Aborted, None)
               else
               (Success,
                Some \<lparr>reduceVars = map (\<lambda>type. the (getReduceType type maxConcurrency))
                                        (getResultTypes p),
                      reduceLowerBound = 0,
                      reduceUpperBound = maxConcurrency,
                      reduceStep = 1,
                      initStores = map the neutral,
                      parallelLowerBound = lowerBound p,
                      parallelUpperBound = upperBound p,
                      parallelStep = step p,
                      clonedLoop = p,
                      combineInitVals = initVals p,
                      combineRegions = reductions p\<rparr>))))"

section \<open>What the rewritten loop computes\<close>

text \<open>
  Integer values are machine words of the width of their type.  The \<open>arith\<close> operations
  with a neutral element, on words; the floating-point kinds have no value here.
\<close>

definition maxsi :: "'a::len word \<Rightarrow> 'a word \<Rightarrow> 'a word" where
  "maxsi a b = (if sint a < sint b then b else a)"

definition minsi :: "'a::len word \<Rightarrow> 'a word \<Rightarrow> 'a word" where
  "minsi a b = (if sint b < sint a then b else a)"

definition applyArith :: "arith_kind \<Rightarrow> 'a::len word \<Rightarrow> 'a word \<Rightarrow> 'a word option" where
  "applyArith k a b =
     (case k of
        AddI \<Rightarrow> Some (a + b)
      | MulI \<Rightarrow> Some (a * b)
      | AndI \<Rightarrow> Some (a AND b)
      | OrI \<Rightarrow> Some (a OR b)
      | XOrI \<Rightarrow> Some (a XOR b)
      | MaxUI \<Rightarrow> Some (max a b)
      | MinUI \<Rightarrow> Some (min a b)
      | MaxSI \<Rightarrow> Some (maxsi a b)
      | MinSI \<Rightarrow> Some (minsi a b)
      | SubI \<Rightarrow> Some (a - b)
      | _ \<Rightarrow> None)"

text \<open>The word an integer attribute denotes.\<close>

definition attrWord :: "attr \<Rightarrow> 'a::len word option" where
  "attrWord a = (case a of IntegerAttr t i \<Rightarrow> Some (word_of_int i) | _ \<Rightarrow> None)"

text \<open>
  The operations of a reduction block, run in order in an environment that gives every SSA
  value (by its number) a word: an \<open>arith\<close> operation binds its result, \<open>scf.reduce.return\<close>
  ends the block with the value of its operand.  \<open>None\<close>: not such a block.
\<close>

fun evalOps :: "op list \<Rightarrow> (nat \<Rightarrow> 'a::len word) \<Rightarrow> 'a word option" where
  "evalOps [] env = None"
| "evalOps (operation # rest) env =
     (case opName operation of
        ScfReduceReturn \<Rightarrow>
          (case operands operation of [x] \<Rightarrow> Some (env (vid x)) | _ \<Rightarrow> None)
      | Arith k \<Rightarrow>
          (case operands operation of
             [x, y] \<Rightarrow>
               (case results operation of
                  [r] \<Rightarrow>
                    (case applyArith k (env (vid x)) (env (vid y)) of
                       None \<Rightarrow> None
                     | Some v \<Rightarrow> evalOps rest (env(vid r := v)))
                | _ \<Rightarrow> None)
           | _ \<Rightarrow> None)
      | _ \<Rightarrow> None)"

text \<open>
  One application of a reduction region: its first block argument is bound to the value
  accumulated so far, its second to the next value; \<open>outer\<close> gives the values defined
  outside the region.  This is how \<open>scf.parallel\<close> lowered to a sequential loop combines, and
  what the operations cloned into the combining loop compute under the mapping of
  \<open>reduceBodyBuilder\<close>.
\<close>

definition evalReduction ::
    "region \<Rightarrow> (nat \<Rightarrow> 'a::len word) \<Rightarrow> 'a word \<Rightarrow> 'a word \<Rightarrow> 'a word option" where
  "evalReduction region outer lhs rhs =
     (case region of
        [([a0, a1], ops)] \<Rightarrow> evalOps ops (outer(vid a0 := lhs, vid a1 := rhs))
      | _ \<Rightarrow> None)"

text \<open>A loop carrying one accumulator through a list of values.\<close>

fun accumulate :: "('a \<Rightarrow> 'b \<Rightarrow> 'a option) \<Rightarrow> 'a \<Rightarrow> 'b list \<Rightarrow> 'a option" where
  "accumulate f acc [] = Some acc"
| "accumulate f acc (x # xs) =
     (case f acc x of None \<Rightarrow> None | Some acc' \<Rightarrow> accumulate f acc' xs)"

text \<open>
  The straightforward sequential execution of the original loop, for its reduction \<open>i\<close>:
  \<open>iters\<close> are the points of the iteration space in order, \<open>operand i pt\<close> the value the
  body hands to \<open>scf.reduce\<close> for reduction \<open>i\<close> at point \<open>pt\<close>; the accumulator starts at
  the value of \<open>initVals[i]\<close>.
\<close>

definition sequentialLoop ::
    "scf_parallel \<Rightarrow> (nat \<Rightarrow> 'a::len word) \<Rightarrow> (nat \<Rightarrow> 'p \<Rightarrow> 'a word) \<Rightarrow> 'p list \<Rightarrow> nat \<Rightarrow>
     'a word option" where
  "sequentialLoop p outer operand iters i =
     accumulate (evalReduction (reductions p ! i) outer)
       (outer (vid (initVals p ! i))) (map (operand i) iters)"

text \<open>\<open>memref.load\<close> and \<open>memref.store\<close> on a one-dimensional buffer; \<open>None\<close> out of bounds.\<close>

definition loadAt :: "'a list \<Rightarrow> nat \<Rightarrow> 'a option" where
  "loadAt buf i = (if i < length buf then Some (buf ! i) else None)"

definition storeAt :: "'a list \<Rightarrow> nat \<Rightarrow> 'a \<Rightarrow> 'a list option" where
  "storeAt buf i v = (if i < length buf then Some (buf[i := v]) else None)"

text \<open>The index values of an \<open>scf.for\<close> from \<open>lb\<close> to \<open>ub\<close> with a positive \<open>step\<close>.\<close>

definition scfForIndices :: "int \<Rightarrow> int \<Rightarrow> int \<Rightarrow> nat list" where
  "scfForIndices lb ub st =
     (if st \<le> 0 \<or> lb < 0 then []
      else map (\<lambda>k. nat (lb + int k * st)) [0 ..< nat ((ub - lb + st - 1) div st)])"

text \<open>
  \<open>reduceInitBodyBuilder\<close>, for \<open>reduceVars[i]\<close>: each iteration of the initialisation loop
  stores \<open>initVals[i]\<close> at the loop index.
\<close>

definition initLoop :: "tbb_ir \<Rightarrow> nat \<Rightarrow> 'a::len word list \<Rightarrow> 'a word list option" where
  "initLoop ir i buf =
     (case attrWord (initStores ir ! i) of
        None \<Rightarrow> None
      | Some init \<Rightarrow>
          accumulate (\<lambda>b index. storeAt b index init) buf
            (scfForIndices (reduceLowerBound ir) (reduceUpperBound ir) (reduceStep ir)))"

text \<open>
  \<open>bodyBuilder\<close>, for \<open>reduceVars[i]\<close>: one run of the body of \<open>numba_util.parallel\<close>, with
  its thread index and the points of its slice: load the value at the thread index, run the
  clone of the loop over the slice from that value, store the result at the thread index.
\<close>

definition parallelBody ::
    "tbb_ir \<Rightarrow> (nat \<Rightarrow> 'a::len word) \<Rightarrow> (nat \<Rightarrow> 'p \<Rightarrow> 'a word) \<Rightarrow> nat \<Rightarrow>
     'a word list \<Rightarrow> nat \<times> 'p list \<Rightarrow> 'a word list option" where
  "parallelBody ir outer operand i buf call =
     (case loadAt buf (fst call) of
        None \<Rightarrow> None
      | Some val \<Rightarrow>
          (case accumulate (evalReduction (reductions (clonedLoop ir) ! i) outer) val
                  (map (operand i) (snd call)) of
             None \<Rightarrow> None
           | Some res \<Rightarrow> storeAt buf (fst call) res))"

text \<open>
  \<open>reduceBodyBuilder\<close>, for reduction \<open>i\<close>: each iteration of the combining loop loads
  \<open>reduceVars[i]\<close> at the loop index and applies the cloned region to the iteration argument
  and the loaded value.
\<close>

definition combineLoop ::
    "tbb_ir \<Rightarrow> (nat \<Rightarrow> 'a::len word) \<Rightarrow> nat \<Rightarrow> 'a word list \<Rightarrow> 'a word option" where
  "combineLoop ir outer i buf =
     accumulate
       (\<lambda>arg index. case loadAt buf index of
                       None \<Rightarrow> None
                     | Some prevVal \<Rightarrow> evalReduction (combineRegions ir ! i) outer arg prevVal)
       (outer (vid (combineInitVals ir ! i)))
       (scfForIndices (reduceLowerBound ir) (reduceUpperBound ir) (reduceStep ir))"

text \<open>
  \<open>memref.alloca\<close> of a one-dimensional buffer of integers of the width of the words:
  as many elements as the type says, of unspecified contents (\<open>uninit\<close> gives the word
  found at each place).  \<open>None\<close>: not such a type.
\<close>

definition allocaBuffer :: "ty \<Rightarrow> (nat \<Rightarrow> 'a::len word) \<Rightarrow> 'a word list option" where
  "allocaBuffer type uninit =
     (case type of
        MemRefType shape elementType l s \<Rightarrow>
          (case shape of
             [cnt] \<Rightarrow>
               if elementType = IntegerType LENGTH('a) \<and> 0 \<le> cnt
               then Some (map uninit [0 ..< nat cnt])
               else None
           | _ \<Rightarrow> None)
      | _ \<Rightarrow> None)"

text \<open>
  The rewritten program, for reduction \<open>i\<close>: the buffer \<open>reduceVars[i]\<close> that the pattern
  allocates, the initialisation loop on it, the runs of the parallel body that the runtime
  makes (\<open>calls\<close>: thread index and slice of each, in the order in which they reach the
  buffer), and the combining loop, whose result replaces that of the original loop.
\<close>

definition rewrittenLoop ::
    "tbb_ir \<Rightarrow> (nat \<Rightarrow> 'a::len word) \<Rightarrow> (nat \<Rightarrow> 'p \<Rightarrow> 'a word) \<Rightarrow> (nat \<Rightarrow> 'a word) \<Rightarrow>
     (nat \<times> 'p list) list \<Rightarrow> nat \<Rightarrow> 'a word option" where
  "rewrittenLoop ir outer operand uninit calls i =
     (if \<not> i < length (reduceVars ir) then None
      else case allocaBuffer (reduceVars ir ! i) uninit of
        None \<Rightarrow> None
      | Some alloca \<Rightarrow>
     (case initLoop ir i alloca of
        None \<Rightarrow> None
      | Some buf \<Rightarrow>
          (case accumulate (parallelBody ir outer operand i) buf calls of
             None \<Rightarrow> None
           | Some buf' \<Rightarrow> combineLoop ir outer i buf')))"

text \<open>
  A reduction region that combines its two block arguments with one \<open>arith\<close> operation of
  kind \<open>k\<close> on \<open>type\<close> and returns the result of that operation.
\<close>

definition combinesWith :: "region \<Rightarrow> arith_kind \<Rightarrow> ty \<Rightarrow> bool" where
  "combinesWith region k type =
     (length region = 1 \<and> length (fst (hd region)) = 2 \<and> length (snd (hd region)) = 2 \<and>
      (let a0 = fst (hd region) ! 0; a1 = fst (hd region) ! 1;
           operation = snd (hd region) ! 0; ret = snd (hd region) ! 1
       in vid a0 \<noteq> vid a1 \<and> opName operation = Arith k \<and>
          (operands operation = [a0, a1] \<or> operands operation = [a1, a0]) \<and>
          length (results operation) = 1 \<and> vty (hd (results operation)) = type \<and>
          opName ret = ScfReduceReturn \<and> operands ret = results operation \<and>
          results ret = []))"

text \<open>The integer kinds that \<open>getNeutralElement\<close> knows.\<close>

definition integerKind :: "arith_kind \<Rightarrow> bool" where
  "integerKind k = (k \<in> {AddI, OrI, XOrI, AndI, MaxUI, MinUI, MaxSI, MinSI, MulI})"

text \<open>
  Scenario 1 of the specification: a function with \<open>numba.max_concurrency = 4\<close> holding a
  loop over \<open>[0, 100)\<close> whose one reduction adds the induction variable, cast to \<open>i64\<close>, to
  an accumulator that starts at \<open>0\<close>.  Ancestors are given by their name and attributes.
\<close>

definition i64 :: ty where
  "i64 = IntegerType 64"

definition sumRegion :: region where
  "sumRegion =
     [([Val 10 i64, Val 11 i64],
       [Op (Arith AddI) [Val 10 i64, Val 11 i64] [Val 12 i64] [] [],
        Op ScfReduceReturn [Val 12 i64] [] [] []])]"

definition sumLoop :: scf_parallel where
  "sumLoop =
     \<lparr>lowerBound = [Val 1 IndexType], upperBound = [Val 2 IndexType], step = [Val 3 IndexType],
      initVals = [Val 4 i64], resultVals = [Val 5 i64], inductionVars = [Val 6 IndexType],
      body = [Op (OtherOp ''arith.index_cast'' []) [Val 6 IndexType] [Val 7 i64] [] []],
      reduceOperands = [Val 7 i64], reductions = [sumRegion]\<rparr>"

definition sumFunc :: op where
  "sumFunc = Op FuncFunc [] [] [(''numba.max_concurrency'', IntegerAttr i64 4)] []"

definition moduleOp :: op where
  "moduleOp = Op BuiltinModule [] [] [] []"

definition sumIr :: tbb_ir where
  "sumIr = the (snd (ParallelToTbb_matchAndRewrite sumFunc [moduleOp] sumLoop))"

definition quarters :: "(nat \<times> nat list) list" where
  "quarters = [(0, [0 ..< 25]), (1, [25 ..< 50]), (2, [50 ..< 75]), (3, [75 ..< 100])]"

text \<open>
  A loop the pattern accepts as well: its reduction block holds one \<open>arith.addi\<close>, which
  adds the second block argument to itself.  The function allows two threads.
\<close>

definition doublingRegion :: region where
  "doublingRegion =
     [([Val 10 i64, Val 11 i64],
       [Op (Arith AddI) [Val 11 i64, Val 11 i64] [Val 12 i64] [] [],
        Op ScfReduceReturn [Val 12 i64] [] [] []])]"

definition doublingLoop :: scf_parallel where
  "doublingLoop = sumLoop\<lparr>reductions := [doublingRegion]\<rparr>"

definition twoThreadFunc :: op where
  "twoThreadFunc = Op FuncFunc [] [] [(''numba.max_concurrency'', IntegerAttr i64 2)] []"

definition doublingIr :: tbb_ir where
  "doublingIr = the (snd (ParallelToTbb_matchAndRewrite twoThreadFunc [moduleOp] doublingLoop))"

text \<open>The laws that make a combining function indifferent to the order of its arguments.\<close>

definition commutativeMonoid :: "('a \<Rightarrow> 'a \<Rightarrow> 'a) \<Rightarrow> 'a \<Rightarrow> bool" where
  "commutativeMonoid F e \<longleftrightarrow>
     (\<forall>a b. F a b = F b a) \<and> (\<forall>a b c. F (F a b) c = F a (F b c)) \<and> (\<forall>a. F e a = a)"

text \<open>The function an integer \<open>arith\<close> kind computes.\<close>

definition kindOp :: "arith_kind \<Rightarrow> 'a::len word \<Rightarrow> 'a word \<Rightarrow> 'a word" where
  "kindOp k a b = the (applyArith k a b)"

text \<open>
  The values of the scenario: every value defined outside the loop is \<open>0\<close> (so is the
  initial value of the reduction), and the loop hands its induction variable to the
  reduction.
\<close>

definition zeroValues :: "nat \<Rightarrow> 64 word" where
  "zeroValues v = 0"

definition inductionValue :: "nat \<Rightarrow> nat \<Rightarrow> 64 word" where
  "inductionValue i pt = of_nat pt"

text \<open>
  The conditions under which the specification has the loop rewritten: not directly inside
  \<open>numba_util.parallel\<close>; directly inside an environment region tagged parallel, or without
  an enclosing \<open>scf.parallel\<close>; the enclosing function carries an integer
  \<open>numba.max_concurrency\<close> above \<open>1\<close>; every result type is a scalar integer or float;
  every reduction region is one block of exactly one operation before the terminator, and
  that operation has a neutral element.
\<close>

definition eligibleLoop :: "op \<Rightarrow> op list \<Rightarrow> scf_parallel \<Rightarrow> bool" where
  "eligibleLoop parent ancestors p \<longleftrightarrow>
     opName parent \<noteq> NumbaParallel \<and>
     ((opName parent = NumbaEnvironmentRegion \<and> getAttr parent ''environment'' = Some ParallelAttr)
      \<or> (\<forall>a \<in> set (parent # ancestors). opName a \<noteq> ScfParallel)) \<and>
     (\<exists>func t mc. getParentOfType (parent # ancestors) FuncFunc = Some func \<and>
        getAttr func ''numba.max_concurrency'' = Some (IntegerAttr t mc) \<and> 1 < mc) \<and>
     (\<forall>type \<in> set (getResultTypes p).
        (\<exists>w. type = IntegerType w) \<or> (\<exists>w. type = FloatType w)) \<and>
     (\<forall>region \<in> set (reductions p).
        \<exists>args operation ret neutral. region = [(args, [operation, ret])] \<and>
           getNeutralElement operation = Done (Some (Some neutral)))"

text \<open>
  A loop in the function of scenario 1 whose reduction block holds one \<open>arith.andi\<close> on
  \<open>index\<close> values defined outside and returns its first argument.
\<close>

definition indexRegion :: region where
  "indexRegion =
     [([Val 10 i64, Val 11 i64],
       [Op (Arith AndI) [Val 1 IndexType, Val 2 IndexType] [Val 12 IndexType] [] [],
        Op ScfReduceReturn [Val 10 i64] [] [] []])]"

definition indexLoop :: scf_parallel where
  "indexLoop = sumLoop\<lparr>reductions := [indexRegion]\<rparr>"

text \<open>The values a zero-initialised stack would hold.\<close>

definition zeroMemory :: "nat \<Rightarrow> 64 word" where
  "zeroMemory address = 0"

definition staleMemory :: "nat \<Rightarrow> 64 word" where
  "staleMemory address = 7"

section \<open>Region/Loop Analyzer: escape analysis (ParallelToTbb.cpp, canResultEscape)\<close>

text \<open>
  The users of a buffer-producing operation, as \<open>canResultEscape\<close> tells them apart with
  \<open>isa\<close>/\<open>dyn_cast\<close>: a \<open>memref.load\<close>, a \<open>memref.store\<close>, a \<open>memref.dealloc\<close>, an
  operation implementing \<open>ViewLikeOpInterface\<close> (carrying the users of its own result, which
  the source reaches through \<open>user->getUsers()\<close>), or any other operation.  The use-def
  graph below an operation result is acyclic, so the users of a view are given as a tree.
\<close>

datatype user =
    LoadOp
  | StoreOp
  | DeallocOp
  | ViewLikeOp "user list"
  | OtherOp

text \<open>
  \<open>canResultEscape(op, original)\<close>: the loop over \<open>op->getUsers()\<close>, with its \<open>continue\<close>
  and early \<open>return true\<close> in the order of the source; \<open>return false\<close> after the loop.
\<close>

fun canResultEscape :: "user list \<Rightarrow> bool \<Rightarrow> bool" where
  "canResultEscape [] original = False"
| "canResultEscape (LoadOp # users) original = canResultEscape users original"
| "canResultEscape (StoreOp # users) original = canResultEscape users original"
| "canResultEscape (DeallocOp # users) original =
     (if original then canResultEscape users original else True)"
| "canResultEscape (ViewLikeOp viewUsers # users) original =
     (if canResultEscape viewUsers False then True else canResultEscape users original)"
| "canResultEscape (OtherOp # users) original = True"

section \<open>Function-Boundary/ABI Fixer (LowerToLlvm.cpp)\<close>

text \<open>
  Printing: a number in decimal (\<open>os << rank\<close>) and an element type in the syntax of the
  MLIR printer (\<open>Type::print\<close>), for the types that name a memref element.
\<close>

function decimal :: "nat \<Rightarrow> string" where
  "decimal n = (if n < 10 then [''0123456789'' ! n]
                else decimal (n div 10) @ [''0123456789'' ! (n mod 10)])"
  by pat_completeness auto
termination
  by (relation "measure id") auto

declare decimal.simps [simp del]



text \<open>
  The type converter (\<open>mlir::LLVMTypeConverter\<close> with the conversions that
  \<open>populateToLLVMAdditionalTypeConversion\<close> adds) is a parameter \<open>conv\<close> of the functions
  below: \<open>conv t = None\<close> is the null type \<open>convertType\<close> returns for a type it cannot
  convert.  \<open>getLLVMPointerType\<close> is the opaque pointer, whatever the element type.
\<close>

definition getLLVMPointerType :: "ty \<Rightarrow> ty" where
  "getLLVMPointerType elemType = LLVMPointerType"









subsection \<open>Conversion thunks (getToMemrefConversionFunc)\<close>







text \<open>
  A module is the list of the operations of its body.  \<open>module.lookupSymbol(name)\<close> is the
  first of them that carries the symbol name; \<open>lookupSymbol<func::FuncOp>\<close> is null when that
  operation is not a \<open>func.func\<close>.
\<close>

definition symbolName :: "op \<Rightarrow> string option" where
  "symbolName s = (case getAttr s ''sym_name'' of Some (StringAttr n) \<Rightarrow> Some n | _ \<Rightarrow> None)"

definition lookupSymbol :: "op list \<Rightarrow> string \<Rightarrow> op option" where
  "lookupSymbol module name = find (\<lambda>s. symbolName s = Some name) module"

definition lookupFuncOp :: "op list \<Rightarrow> string \<Rightarrow> op option" where
  "lookupFuncOp module name =
     (case lookupSymbol module name of
        None \<Rightarrow> None
      | Some s \<Rightarrow> if opName s = FuncFunc then Some s else None)"





text \<open>
  Modelled from the spec: \<open>numba::addFunction\<close> (FuncUtils.cpp is not among the sources)
  creates a new private \<open>func.func\<close> of the given name and type at the end of the module's
  symbol table; the builder of the body is handed the function afterwards, so the function is
  given here with the attributes and the body its creator sets.
\<close>

definition addFunction :: "op list \<Rightarrow> string \<Rightarrow> ty list \<times> ty list \<Rightarrow> (string \<times> attr) list \<Rightarrow>
    block list \<Rightarrow> op \<times> op list" where
  "addFunction module name type extra blocks =
     (let func = Op FuncFunc [] []
                   ([(''sym_name'', StringAttr name),
                     (''function_type'', TypeAttr (FunctionType (fst type) (snd type))),
                     (''sym_visibility'', StringAttr ''private'')] @ extra)
                   [blocks]
      in (func, module @ [func]))"


definition position :: "nat \<Rightarrow> (string \<times> attr) list" where
  "position index = [(''position'', IntegerAttr (IntegerType 64) (int index))]"

definition structBody :: "ty \<Rightarrow> ty list" where
  "structBody t = (case t of LLVMStructType elems \<Rightarrow> elems | _ \<Rightarrow> [])"



















subsection \<open>Function signatures and returns (fixFuncSig, ReturnOpLowering)\<close>


definition getFastmathName :: string where
  "getFastmathName = ''numba.fastmath''"


text \<open>\<open>doCast\<close>: the value itself when it has the type, else an unrealized conversion cast.\<close>

definition doCast :: "val \<Rightarrow> ty \<Rightarrow> builder \<Rightarrow> val \<times> builder" where
  "doCast src dstType b =
     (if vty src = dstType then (src, b)
      else create UnrealizedConversionCast [src] dstType [] b)"






text \<open>
  What \<open>fixFuncSig\<close> works on: the list \<open>args\<close> of the new parameter types, the position
  \<open>index\<close> in the arguments of the entry block, the blocks of the body, the operations the
  builder has created at the start of the entry block (with the next unused value number,
  from which new block arguments take their numbers as well), and the module.
\<close>

record fix_state =
  args :: "ty list"
  index :: nat
  funcBody :: "block list"
  insertion :: builder
  parentModule :: "op list"



definition calleeOf :: "op \<Rightarrow> (string \<times> attr) list" where
  "calleeOf func =
     [(''callee'', SymbolRefAttr (case symbolName func of Some n \<Rightarrow> n | None \<Rightarrow> []))]"




















text \<open>
  Invariants of the loop over the parameters in \<open>fixFuncSig\<close>, for the parameters \<open>rest\<close>
  that are still to be processed: the types of the entry block arguments are the new
  parameter types followed by those of \<open>rest\<close>, and \<open>index\<close> is the number of new parameters;
  the first argument of the entry block stays the first.
\<close>

definition sigInv :: "fix_state \<Rightarrow> ty list \<Rightarrow> bool" where
  "sigInv st rest \<longleftrightarrow>
     funcBody st \<noteq> [] \<and> map vty (fst (hd (funcBody st))) = args st @ rest \<and>
     index st = length (args st)"

definition headInv :: "fix_state \<Rightarrow> val \<Rightarrow> bool" where
  "headInv st v \<longleftrightarrow> 0 < index st \<and> hd (fst (hd (funcBody st))) = v"

section \<open>Runtime Lowering of the explicit-parallel construct (LowerToLlvm.cpp, LowerParallel)\<close>

text \<open>
  \<open>op->walk(callback)\<close> visits the operations nested in an operation and then the operation
  itself (post-order): region by region, block by block, operation by operation.
\<close>

fun walk :: "op \<Rightarrow> op list" where
  "walk (Op n os rs as rg) =
     concat (map (\<lambda>r. concat (map (\<lambda>blk. concat (map walk (snd blk))) r)) rg) @
     [Op n os rs as rg]"

text \<open>
  The values defined in the regions of an operation: the arguments of their blocks and the
  results of the operations in them, at any depth.  \<open>isDefinedInside\<close> climbs from the region
  that holds the definition of the value to the region of the construct; it returns true
  exactly for these values.
\<close>

fun definedIn :: "op \<Rightarrow> val list" where
  "definedIn (Op n os rs as rg) =
     concat (map (\<lambda>r. concat (map (\<lambda>blk. fst blk @
                                         concat (map (\<lambda>inner. results inner @ definedIn inner)
                                                   (snd blk))) r)) rg)"

definition isDefinedInside :: "op \<Rightarrow> val \<Rightarrow> bool" where
  "isDefinedInside operation value \<longleftrightarrow> value \<in> set (definedIn operation)"

text \<open>
  \<open>value.getDefiningOp()\<close>, in a module given by the list of its operations: the operation
  that has the value among its results; null for a block argument.
\<close>

definition getDefiningOp :: "op list \<Rightarrow> val \<Rightarrow> op option" where
  "getDefiningOp module value =
     find (\<lambda>operation. value \<in> set (results operation)) (concat (map walk module))"

text \<open>The three collections of the capture analysis.\<close>

record capture =
  contextVars :: "val list"
  contextConstants :: "op list"
  contextVarsSet :: "val set"

definition addContextVar :: "op list \<Rightarrow> val \<Rightarrow> capture \<Rightarrow> capture" where
  "addContextVar module value c =
     (if value \<in> contextVarsSet c then c
      else
      (let c1 = c\<lparr>contextVarsSet := insert value (contextVarsSet c)\<rparr>
       in case getDefiningOp module value of
            Some def \<Rightarrow>
              if hasTrait (opName def) ConstantLike
              then c1\<lparr>contextConstants := contextConstants c1 @ [def]\<rparr>
              else c1\<lparr>contextVars := contextVars c1 @ [value]\<rparr>
          | None \<Rightarrow> c1\<lparr>contextVars := contextVars c1 @ [value]\<rparr>))"

text \<open>
  The callback of the walk in \<open>LowerParallel::matchAndRewrite\<close>: for an operation other
  than the construct, each operand that is not defined inside is added.  The callback always
  advances, so the walk is never interrupted.
\<close>

definition visit :: "op list \<Rightarrow> op \<Rightarrow> capture \<Rightarrow> op \<Rightarrow> capture" where
  "visit module operation c inner =
     (if operation \<noteq> inner
      then foldl (\<lambda>c1 arg. if \<not> isDefinedInside operation arg
                           then addContextVar module arg c1 else c1) c (operands inner)
      else c)"

definition captureAnalysis :: "op list \<Rightarrow> op \<Rightarrow> capture" where
  "captureAnalysis module operation =
     foldl (visit module operation)
       \<lparr>contextVars = [], contextConstants = [], contextVarsSet = {}\<rparr> (walk operation)"

text \<open>\<open>contextType\<close>: the struct of the converted types; null when one does not convert.\<close>

definition contextTypeOf :: "(ty \<Rightarrow> ty option) \<Rightarrow> val list \<Rightarrow> ty option" where
  "contextTypeOf conv vars =
     (if \<exists>var \<in> set vars. conv (vty var) = None then None
      else Some (LLVMStructType (map (\<lambda>var. the (conv (vty var))) vars)))"

definition llvmIndexType :: ty where
  "llvmIndexType = IntegerType 64"

definition llvmI32Type :: ty where
  "llvmI32Type = IntegerType 32"

definition getI32IntegerAttr :: "nat \<Rightarrow> (string \<times> attr) list" where
  "getI32IntegerAttr i = [(''value'', IntegerAttr (IntegerType 32) (int i))]"

text \<open>
  The operands of the construct as \<open>ParallelOp::build\<close> lays them out: lower bounds, upper
  bounds and steps, \<open>numLoops\<close> of each.
\<close>

definition getNumLoops :: "op \<Rightarrow> nat" where
  "getNumLoops operation = length (operands operation) div 3"

definition getLowerBounds :: "op \<Rightarrow> val list" where
  "getLowerBounds operation = take (getNumLoops operation) (operands operation)"

definition getUpperBounds :: "op \<Rightarrow> val list" where
  "getUpperBounds operation =
     take (getNumLoops operation) (drop (getNumLoops operation) (operands operation))"

definition getSteps :: "op \<Rightarrow> val list" where
  "getSteps operation =
     take (getNumLoops operation) (drop (2 * getNumLoops operation) (operands operation))"

text \<open>
  The loop that stores the captured values: value \<open>i\<close> is cast to the type of field \<open>i\<close>
  and stored through a \<open>getelementptr\<close> of the context struct with the indices \<open>0, i\<close>.
\<close>

fun storeContextVars :: "ty list \<Rightarrow> val \<Rightarrow> val \<Rightarrow> nat \<Rightarrow> val list \<Rightarrow> builder \<Rightarrow> builder" where
  "storeContextVars fieldTypes ctx zero i [] b = b"
| "storeContextVars fieldTypes ctx zero i (value # rest) b =
     (let type = fieldTypes ! i;
          (llvmVal, b1) = doCast value type b;
          (idx, b2) = create LLVMConstant [] llvmI32Type (getI32IntegerAttr i) b1;
          pointerType = getLLVMPointerType type;
          (p, b3) = create LLVMGEP [ctx, zero, idx] pointerType
                      [(''elem_type'', TypeAttr (LLVMStructType fieldTypes))] b2;
          b4 = create0 LLVMStore [llvmVal, p] [] b3
      in storeContextVars fieldTypes ctx zero (Suc i) rest b4)"

text \<open>
  The name of the outlined function: \<open>for (int i = 0;; ++i)\<close> until no \<open>func.func\<close> of the
  module has the name.  The loop has no other exit; \<open>None\<close> is the search that does not end.
\<close>

definition outlinedName :: "string \<Rightarrow> nat \<Rightarrow> string" where
  "outlinedName oldName i =
     (if i = 0 then oldName @ ''_outlined'' else oldName @ ''_outlined_'' @ decimal i)"

partial_function (option) funcName :: "op list \<Rightarrow> string \<Rightarrow> nat \<Rightarrow> string option" where
  "funcName module oldName i =
     (if lookupFuncOp module (outlinedName oldName i) = None
      then Some (outlinedName oldName i)
      else funcName module oldName (Suc i))"

text \<open>\<open>copyAttrs\<close>: the fast-math and the max-concurrency attribute, where the source has them.\<close>

definition copyAttrs :: "op \<Rightarrow> (string \<times> attr) list" where
  "copyAttrs src =
     concat (map (\<lambda>name. case getAttr src name of
                            Some a \<Rightarrow> [(name, a)]
                          | None \<Rightarrow> [])
               [getFastmathName, getMaxConcurrencyName])"

text \<open>
  An \<open>IRMapping\<close> is a map from values to values; \<open>lookupOrDefault\<close> is the value itself
  when it is not mapped.  Cloning maps the operands of an operation and of the operations
  nested in it.  (In the clone the results and the block arguments that are not mapped are
  new values; they keep their numbers here, the clone being in another function.)
\<close>

definition lookupOrDefault :: "(val \<rightharpoonup> val) \<Rightarrow> val \<Rightarrow> val" where
  "lookupOrDefault mapping v = (case mapping v of Some w \<Rightarrow> w | None \<Rightarrow> v)"

fun remap :: "(val \<rightharpoonup> val) \<Rightarrow> op \<Rightarrow> op" where
  "remap mapping (Op n os rs as rg) =
     Op n (map (lookupOrDefault mapping) os) rs as
        (map (map (map_prod id (map (remap mapping)))) rg)"

text \<open>
  \<open>Region::cloneInto\<close>: a block argument that is mapped already is not added to the cloned
  block.
\<close>

definition cloneInto :: "(val \<rightharpoonup> val) \<Rightarrow> block list \<Rightarrow> block list" where
  "cloneInto mapping blocks =
     map (\<lambda>blk. (filter (\<lambda>a. mapping a = None) (fst blk), map (remap mapping) (snd blk))) blocks"

text \<open>
  The first loop of the outlined function: the bounds of loop \<open>i\<close> are loaded from the
  first argument and mapped to the arguments \<open>i\<close> and \<open>i + numLoops\<close> of the old entry block.
  \<open>k\<close> counts the iterations that are left.
\<close>

definition rangeType :: ty where
  "rangeType = LLVMStructType [llvmIndexType, llvmIndexType]"

definition inputRangeType :: ty where
  "inputRangeType = LLVMStructType [llvmIndexType, llvmIndexType, llvmIndexType]"

fun loadBounds ::
    "nat \<Rightarrow> val \<Rightarrow> val list \<Rightarrow> nat \<Rightarrow> nat \<Rightarrow> (val \<rightharpoonup> val) \<Rightarrow> builder \<Rightarrow> (val \<rightharpoonup> val) \<times> builder" where
  "loadBounds numLoops arg oldArgs i 0 mapping b = (mapping, b)"
| "loadBounds numLoops arg oldArgs i (Suc k) mapping b =
     (let (idx, b1) = create LLVMConstant [] llvmI32Type (getI32IntegerAttr i) b;
          (p, b2) = create LLVMGEP [arg, idx] (getLLVMPointerType rangeType)
                      [(''elem_type'', TypeAttr rangeType)] b1;
          (dims, b3) = create LLVMLoad [p] rangeType [] b2;
          (lower, b4) = create LLVMExtractValue [dims] llvmIndexType (position 0) b3;
          (upper, b5) = create LLVMExtractValue [dims] llvmIndexType (position 1) b4;
          (lower1, b6) = doCast lower IndexType b5;
          mapping1 = mapping(oldArgs ! i \<mapsto> lower1);
          (upper1, b7) = doCast upper IndexType b6;
          mapping2 = mapping1(oldArgs ! (i + numLoops) \<mapsto> upper1)
      in loadBounds numLoops arg oldArgs (Suc i) k mapping2 b7)"

text \<open>\<open>rewriter.clone(*arg, mapping)\<close> for each constant: the results of the clone are mapped.\<close>

fun cloneConstants :: "op list \<Rightarrow> (val \<rightharpoonup> val) \<Rightarrow> builder \<Rightarrow> (val \<rightharpoonup> val) \<times> builder" where
  "cloneConstants [] mapping b = (mapping, b)"
| "cloneConstants (arg # rest) mapping b =
     (let newResults = map (\<lambda>(j, r). Val (nextId b + j) (vty r))
                         (zip [0 ..< length (results arg)] (results arg));
          cloned = Op (opName arg) (map (lookupOrDefault mapping) (operands arg)) newResults
                      (attrs arg)
                      (map (map (map_prod id (map (remap mapping)))) (regions arg));
          mapping1 = mapping ++ map_of (zip (results arg) newResults);
          b1 = \<lparr>nextId = nextId b + length (results arg), created = created b @ [cloned]\<rparr>
      in cloneConstants rest mapping1 b1)"

text \<open>
  The second loop of the outlined function: field \<open>index\<close> of the context is loaded, cast
  to the type of the captured value and mapped to it.
\<close>

fun loadContextVars ::
    "ty list \<Rightarrow> val \<Rightarrow> val \<Rightarrow> nat \<Rightarrow> val list \<Rightarrow> (val \<rightharpoonup> val) \<Rightarrow> builder \<Rightarrow>
     (val \<rightharpoonup> val) \<times> builder" where
  "loadContextVars fieldTypes contextPtr zero i [] mapping b = (mapping, b)"
| "loadContextVars fieldTypes contextPtr zero i (oldVal # rest) mapping b =
     (let (idx, b1) = create LLVMConstant [] llvmI32Type (getI32IntegerAttr i) b;
          elemType = fieldTypes ! i;
          pointerType = getLLVMPointerType elemType;
          (p, b2) = create LLVMGEP [contextPtr, zero, idx] pointerType
                      [(''elem_type'', TypeAttr (LLVMStructType fieldTypes))] b1;
          (llvmVal, b3) = create LLVMLoad [p] elemType [] b2;
          (v, b4) = doCast llvmVal (vty oldVal) b3
      in loadContextVars fieldTypes contextPtr zero (Suc i) rest (mapping(oldVal \<mapsto> v)) b4)"

text \<open>The last loop of the outlined function: a \<open>numba_util.yield\<close> becomes a \<open>func.return\<close>.\<close>

definition replaceYield :: "block \<Rightarrow> block" where
  "replaceYield blk =
     (case getTerminator blk of
        None \<Rightarrow> blk
      | Some term \<Rightarrow>
          if opName term = NumbaYield
          then (fst blk, butlast (snd blk) @ [Op FuncReturn [] [] [] []])
          else blk)"

text \<open>
  The loop that fills the array of input ranges: one struct \<open>(lower, upper, step)\<close> per
  loop, stored at index \<open>i\<close>.
\<close>

fun storeRanges :: "op \<Rightarrow> val \<Rightarrow> nat \<Rightarrow> nat \<Rightarrow> builder \<Rightarrow> builder" where
  "storeRanges operation inputRanges i 0 b = b"
| "storeRanges operation inputRanges i (Suc k) b =
     (let (r0, b1) = create LLVMUndef [] inputRangeType [] b;
          (l, b2) = doCast (getLowerBounds operation ! i) llvmIndexType b1;
          (r1, b3) = create LLVMInsertValue [r0, l] inputRangeType (position 0) b2;
          (u, b4) = doCast (getUpperBounds operation ! i) llvmIndexType b3;
          (r2, b5) = create LLVMInsertValue [r1, u] inputRangeType (position 1) b4;
          (s, b6) = doCast (getSteps operation ! i) llvmIndexType b5;
          (r3, b7) = create LLVMInsertValue [r2, s] inputRangeType (position 2) b6;
          (idx, b8) = create LLVMConstant [] llvmI32Type (getI32IntegerAttr i) b7;
          (p, b9) = create LLVMGEP [inputRanges, idx] (getLLVMPointerType inputRangeType)
                      [(''elem_type'', TypeAttr inputRangeType)] b8;
          b10 = create0 LLVMStore [r3, p] [] b9
      in storeRanges operation inputRanges (Suc i) k b10)"

text \<open>
  What the pattern leaves behind when it succeeds.  Modelled from the spec:
  \<open>numba::AllocaInsertionPoint\<close> (not among the sources) is the fixed allocation anchor of
  the enclosing function; \<open>insert\<close> runs its argument with the insertion point there.
  \<open>allocaOps\<close> are the operations created at the anchor, \<open>loweredOps\<close> those created in the
  place of the construct, the last of them the call that replaces it.
\<close>

record lowered =
  allocaOps :: "op list"
  loweredOps :: "op list"
  outlinedFunc :: op
  loweredModule :: "op list"

definition funcType :: "ty list \<times> ty list" where
  "funcType = ([getLLVMPointerType rangeType, IndexType, getLLVMPointerType (IntegerType 8)], [])"

text \<open>
  The outlined function, with the entry block the pattern builds and the clone of the
  region of the construct behind it.  \<open>b\<close> gives the value numbers.
\<close>

definition outline ::
    "op list \<Rightarrow> op \<Rightarrow> string \<Rightarrow> op \<Rightarrow> capture \<Rightarrow> ty list \<Rightarrow> builder \<Rightarrow>
     (op \<times> op list) \<times> builder" where
  "outline module parentFunc name operation c fieldTypes b =
     (let numLoops = getNumLoops operation;
          oldEntry = hd (hd (regions operation));
          entryArgs = [Val (nextId b) (getLLVMPointerType rangeType),
                       Val (nextId b + 1) IndexType,
                       Val (nextId b + 2) (getLLVMPointerType (IntegerType 8))];
          e0 = \<lparr>nextId = nextId b + 3, created = []\<rparr>;
          (mapping1, e1) = loadBounds numLoops (entryArgs ! 0) (fst oldEntry) 0 numLoops
                             Map.empty e0;
          mapping2 = mapping1(fst oldEntry ! (2 * numLoops) \<mapsto> entryArgs ! 1);
          (mapping3, e2) = cloneConstants (contextConstants c) mapping2 e1;
          (contextPtr, e3) = create LLVMBitcast [entryArgs ! 2]
                               (getLLVMPointerType (LLVMStructType fieldTypes)) [] e2;
          (zero, e4) = create LLVMConstant [] llvmI32Type (getI32IntegerAttr 0) e3;
          (mapping4, e5) = loadContextVars fieldTypes contextPtr zero 0 (contextVars c) mapping3 e4;
          cloned = cloneInto mapping4 (hd (regions operation));
          e6 = create0 CfBranch [] [] e5;
          blocks = map replaceYield ((entryArgs, created e6) # cloned)
      in (addFunction module name funcType (copyAttrs parentFunc) blocks,
          b\<lparr>nextId := nextId e6\<rparr>))"

text \<open>
  \<open>LowerParallel::matchAndRewrite\<close>, for a construct in the function \<open>parentFunc\<close> (\<open>None\<close>:
  \<open>getParentOfType\<close> is null) of the module, with the type converter \<open>conv\<close> and a value
  number \<open>fresh\<close> that is not in use.  The outer \<open>None\<close> is the search for a function name
  that does not end.
\<close>

definition LowerParallel_matchAndRewrite ::
    "(ty \<Rightarrow> ty option) \<Rightarrow> op list \<Rightarrow> op option \<Rightarrow> op \<Rightarrow> nat \<Rightarrow>
     (logical_result \<times> lowered option) run option" where
  "LowerParallel_matchAndRewrite conv module parentFunc operation fresh =
     (let numLoops = getNumLoops operation;
          c = captureAnalysis module operation
      in case contextTypeOf conv (contextVars c) of
           None \<Rightarrow> Some (Done (Failure, None))
         | Some contextType \<Rightarrow>
     (let fieldTypes = structBody contextType;
          contextPtrType = getLLVMPointerType contextType;
          b0 = \<lparr>nextId = fresh, created = []\<rparr>;
          (zero, b1) = create LLVMConstant [] llvmI32Type (getI32IntegerAttr 0) b0;
          a0 = \<lparr>nextId = nextId b1, created = []\<rparr>;
          (one, a1) = create LLVMConstant [] llvmI32Type (getI32IntegerAttr 1) a0;
          (ctx, a2) = create LLVMAlloca [one] contextPtrType
                        [(''elem_type'', TypeAttr contextType)] a1;
          b2 = storeContextVars fieldTypes ctx zero 0 (contextVars c) (b1\<lparr>nextId := nextId a2\<rparr>);
          voidPtrType = getLLVMPointerType (IntegerType 8);
          (contextAbstract, b3) = create LLVMBitcast [ctx] voidPtrType [] b2
      in case parentFunc of
           None \<Rightarrow> Some AssertionFailed
         | Some parent \<Rightarrow>
             if regions operation = [] \<or> hd (regions operation) = [] \<or>
                length (fst (hd (hd (regions operation)))) \<le> 2 * numLoops
             then Some AssertionFailed
             else
             (case funcName module (case symbolName parent of Some n \<Rightarrow> n | None \<Rightarrow> []) 0 of
                None \<Rightarrow> None
              | Some name \<Rightarrow>
     (let ((outlined, module1), b4) = outline module parent name operation c fieldTypes b3;
          (parallelFor, module2) =
            (case lookupFuncOp module1 ''nmrtParallelFor'' of
               Some s \<Rightarrow> (s, module1)
             | None \<Rightarrow>
                 addFunction module1 ''nmrtParallelFor''
                   ([getLLVMPointerType inputRangeType, IndexType,
                     FunctionType (fst funcType) (snd funcType), voidPtrType], []) [] []);
          (funcAddr, b5) = create FuncConstant [] (FunctionType (fst funcType) (snd funcType))
                             [(''value'', SymbolRefAttr name)] b4;
          a3 = \<lparr>nextId = nextId b5, created = created a2\<rparr>;
          (numLoopsVar0, a4) = create LLVMConstant [] llvmIndexType
                                 [(''value'', IntegerAttr llvmIndexType (int numLoops))] a3;
          (inputRanges, a5) = create LLVMAlloca [numLoopsVar0]
                                (getLLVMPointerType inputRangeType)
                                [(''elem_type'', TypeAttr inputRangeType)] a4;
          b6 = storeRanges operation inputRanges 0 numLoops (b5\<lparr>nextId := nextId a5\<rparr>);
          (numLoopsVar, b7) = create ArithConstant [] IndexType
                                [(''value'', IntegerAttr IndexType (int numLoops))] b6;
          b8 = create0 FuncCall [inputRanges, numLoopsVar, funcAddr, contextAbstract]
                 (calleeOf parallelFor) b7
      in Some (Done (Success,
                     Some \<lparr>allocaOps = created a5, loweredOps = created b8,
                           outlinedFunc = outlined, loweredModule = module2\<rparr>))))))"

text \<open>
  The order of first discovery, in the words of the specification: each value once, at the
  place of its first occurrence.
\<close>

definition firstDiscovery :: "'a list \<Rightarrow> 'a list" where
  "firstDiscovery xs = rev (remdups (rev xs))"

text \<open>The operations nested in an operation, in the order of the walk.\<close>

definition nested :: "op \<Rightarrow> op list" where
  "nested operation =
     concat (map (\<lambda>r. concat (map (\<lambda>blk. concat (map walk (snd blk))) r)) (regions operation))"

text \<open>The operands of the nested operations that are not defined inside the construct.\<close>

definition captureCandidates :: "op \<Rightarrow> val list" where
  "captureCandidates operation =
     filter (\<lambda>arg. \<not> isDefinedInside operation arg) (concat (map operands (nested operation)))"

definition constantLike :: "op list \<Rightarrow> val \<Rightarrow> bool" where
  "constantLike module value =
     (case getDefiningOp module value of
        Some def \<Rightarrow> hasTrait (opName def) ConstantLike
      | None \<Rightarrow> False)"

text \<open>
  A value is stored into field \<open>i\<close> of the context: among the operations there is a
  constant \<open>i\<close>, a \<open>getelementptr\<close> of the context with the indices \<open>zero\<close> and that constant,
  and a store through its result of the value, or of the cast of the value to the type of
  the field.
\<close>

definition storedIntoField :: "val \<Rightarrow> val \<Rightarrow> ty \<Rightarrow> val \<Rightarrow> nat \<Rightarrow> op list \<Rightarrow> bool" where
  "storedIntoField ctx zero type value i ops =
     list_ex (\<lambda>idx. opName idx = LLVMConstant \<and> attrs idx = getI32IntegerAttr i \<and>
       list_ex (\<lambda>gep. opName gep = LLVMGEP \<and> operands gep = [ctx, zero] @ results idx \<and>
         list_ex (\<lambda>store. opName store = LLVMStore \<and>
                    length (operands store) = 2 \<and> [operands store ! 1] = results gep \<and>
                    (operands store ! 0 = value \<or>
                     list_ex (\<lambda>cast. opName cast = UnrealizedConversionCast \<and>
                                operands cast = [value] \<and>
                                results cast = [operands store ! 0] \<and>
                                vty (operands store ! 0) = type) ops))
           ops) ops) ops"

section \<open>Execution Engine (ExecutionEngine.cpp: loadModule, lookup)\<close>

text \<open>
  Pointers are addresses, \<open>0\<close> being \<open>nullptr\<close>.  An \<open>llvm::Expected<T>\<close> is a sum
  \<open>error + T\<close>; an error is either made here by \<open>makeStringError\<close> or is an
  \<open>llvm::Error\<close> made elsewhere (by the ORC JIT, by a transformer) and handed on.  What a call does to the
  process is an \<open>outcome\<close>: it returns, or the process ends in \<open>llvm::report_fatal_error\<close>
  or \<open>llvm::cantFail\<close> (\<open>FatalError\<close>), in a failed \<open>assert\<close>, or by calling a member
  function through a null \<open>std::unique_ptr\<close>.
\<close>

type_synonym addr = nat

datatype error = StringError string | JITError string

datatype 'a outcome =
    Returned "error + 'a"
  | FatalError string
  | AssertionFailure
  | NullDereference

datatype code_model = CodeModelDefault | CodeModelLarge
datatype pic_level = NotPIC | SmallPIC | BigPIC
datatype pie_level = DefaultPIE | SmallPIE | LargePIE

text \<open>
  Of an LLVM module the engine sets four options; its own passes read the call instructions
  of the functions: the name of the called function (\<open>None\<close> when \<open>getCalledFunction()\<close>
  is null, as for an indirect call) and the number of arguments.
\<close>

datatype instruction = CallInst "string option" nat | OtherInst

record llvm_function =
  functionName :: string
  instructions :: "instruction list"

record llvm_module =
  codeModel :: code_model
  picLevel :: pic_level
  pieLevel :: pie_level
  directAccessExternalData :: bool
  moduleFunctions :: "llvm_function list"

text \<open>
  The collaborators of the engine, as the results of the calls \<open>loadModule\<close> makes: the
  MLIR translation, the engine's optional \<open>transformer\<close> and \<open>symbolMap\<close>, the
  LLJIT (its dylibs named \<open>module<k>\<close> are given by their numbers \<open>k\<close>), and the dynamic
  loader.  An \<open>llvm::Error\<close> is \<open>None\<close> on success and \<open>Some\<close> message on failure.
\<close>

record 'm world =
  translateModuleToLLVMIR :: "'m \<Rightarrow> llvm_module option"
  transformer :: "(llvm_module \<Rightarrow> string option) option"
  jitDylibNumbers :: "nat list"
  createJITDylib :: "nat \<Rightarrow> string + addr"
  getForCurrentProcess :: "string option"
  symbolMap :: "string option option"
  addIRModule :: "llvm_module \<Rightarrow> string option"
  dlopen :: "string \<Rightarrow> addr"
  dlsym :: "addr \<Rightarrow> string \<Rightarrow> addr"
  defineAbsoluteSymbols :: "(string \<times> addr) list \<Rightarrow> string option"
  initialize :: "addr \<Rightarrow> string option"

definition cantFailMsg :: string where
  "cantFailMsg = ''Failure value returned from cantFail wrapped call''"

text \<open>
  \<open>while (true)\<close> over \<open>uniqueNameCounter++\<close>: skip the numbers whose name is already a
  dylib of the JIT.  Returns the number found and the counter after it.
\<close>

function uniqueName :: "nat list \<Rightarrow> nat \<Rightarrow> nat \<times> nat" where
  "uniqueName taken counter =
     (if counter \<in> set taken then uniqueName taken (Suc counter) else (counter, Suc counter))"
  by pat_completeness auto
termination
  by (relation "measure (\<lambda>(taken, counter). Suc (sum_list taken) - counter)")
     (auto dest: member_le_sum_list)

declare uniqueName.simps [simp del]

text \<open>\<open>symMap.insert\<close> of a \<open>DenseMap\<close>: an existing key keeps its value.\<close>

definition insertSym :: "string \<times> addr \<Rightarrow> (string \<times> addr) list \<Rightarrow> (string \<times> addr) list" where
  "insertSym kv symMap = (if fst kv \<in> fst ` set symMap then symMap else symMap @ [kv])"

text \<open>
  \<open>for (auto fn : fns)\<close>: \<open>dlsym\<close> each function; a missing one is
  \<open>llvm::report_fatal_error\<close> (\<open>None\<close>).
\<close>

fun addRuntimeFns :: "(string \<Rightarrow> addr) \<Rightarrow> string list \<Rightarrow> (string \<times> addr) list \<Rightarrow>
    (string \<times> addr) list option" where
  "addRuntimeFns resolve [] symMap = Some symMap"
| "addRuntimeFns resolve (fn # fns) symMap =
     (let funcAddr = resolve fn
      in if funcAddr \<noteq> 0 then addRuntimeFns resolve fns (insertSym (fn, funcAddr) symMap)
         else None)"

text \<open>
  One \<open>if ((dlHandle = dlopen(path, RTLD_LAZY))) {...} else {llvm::errs() << ...}\<close> block:
  a library that does not open is only reported on \<open>llvm::errs()\<close>; \<open>Inl\<close> is the message of
  the fatal error.
\<close>

definition addRuntimeLib :: "'m world \<Rightarrow> string \<Rightarrow> string list \<Rightarrow> string \<Rightarrow>
    (string \<times> addr) list \<Rightarrow> string + (string \<times> addr) list" where
  "addRuntimeLib w path fns fatal symMap =
     (let dlHandle = dlopen w path
      in if dlHandle \<noteq> 0
         then (case addRuntimeFns (dlsym w dlHandle) fns symMap of
                 None \<Rightarrow> Inl fatal
               | Some symMap' \<Rightarrow> Inr symMap')
         else Inr symMap)"

definition libkitrt :: string where
  "libkitrt = ''/vast/home/josephsarrao/kitinstall_t/lib/clang/18/lib/libkitrt.so''"

definition libopencilk :: string where
  "libopencilk =
     ''/vast/home/josephsarrao/kitinstall_t/lib/clang/18/lib/x86_64-unknown-linux-gnu/libopencilk.so''"

definition libopencilk_personality :: string where
  "libopencilk_personality =
     ''/vast/home/josephsarrao/kitinstall_t/lib/clang/18/lib/x86_64-unknown-linux-gnu/libopencilk-personality-c.so''"

definition timerFuncs :: string where
  "timerFuncs = ''/vast/home/josephsarrao/python_experiments/numba-mlir/yw_therm/timerFuncs.so''"

definition kitcudaFns :: "string list" where
  "kitcudaFns =
     [''__cudaRegisterFatBinary'', ''__cudaRegisterFatBinaryEnd'', ''__cudaUnregisterFatBinary'',
      ''__kitcuda_use_occupancy_launch'', ''__kitcuda_initialize'', ''__kitcuda_destroy'',
      ''__kitcuda_launch_kernel'', ''__kitcuda_mem_gpu_prefetch'',
      ''__kitcuda_set_default_threads_per_blk'', ''__kitcuda_sync_thread_stream'',
      ''__kitcuda_mem_alloc_managed_numba_cu'', ''__kitcuda_mem_alloc_managed_numba_oc'']"

definition openCilkFns :: "string list" where
  "openCilkFns =
     [''Cilk_exception_handler'', ''Cilk_set_return'', ''cilkg_nproc'',
      ''__pedigree_dprng_m_array'', ''__cilkrts_check_exception_raise'',
      ''__cilkrts_cleanup_fiber'', ''__cilkrts_internal_exit_cilkified_root'',
      ''__cilkrts_internal_invoke_cilkified_root'', ''__cilkrts_need_to_cilkify'',
      ''__cilkrts_sync'', ''__cilkrts_use_extension'', ''__emutls_v.__cilkrts_current_fh'']"

definition openCilkPersFns :: "string list" where
  "openCilkPersFns = [''__cilk_personality_v0'']"

definition timerFns :: "string list" where
  "timerFns = [''startKitTimer'', ''endKitTimer'']"

definition kitcudaFatal :: string where
  "kitcudaFatal = ''error finding kitcuda function in libkitrt.so'' @ [CHR 0x0A]"

definition openCilkFatal :: string where
  "openCilkFatal = ''error finding opencilk function in libopencilk.so'' @ [CHR 0x0A]"

definition openCilkPersFatal :: string where
  "openCilkPersFatal =
     ''error finding opencilk function in libopencilk-personality-c.so'' @ [CHR 0x0A]"

definition timerFatal :: string where
  "timerFatal = ''error finding timer func'' @ [CHR 0x0A]"

text \<open>
  The tail of \<open>loadModule\<close> from \<open>jit->addIRModule\<close> on (part_002): the four runtime
  libraries in the order of the source, then \<open>dylib->define\<close> and \<open>jit->initialize\<close>, each
  under \<open>llvm::cantFail\<close>.
\<close>

definition linkRuntime :: "'m world \<Rightarrow> addr \<Rightarrow> addr outcome" where
  "linkRuntime w dylib =
     (case addRuntimeLib w libkitrt kitcudaFns kitcudaFatal [] of
        Inl fatal \<Rightarrow> FatalError fatal
      | Inr symMap1 \<Rightarrow>
     (case addRuntimeLib w libopencilk openCilkFns openCilkFatal symMap1 of
        Inl fatal \<Rightarrow> FatalError fatal
      | Inr symMap2 \<Rightarrow>
     (case addRuntimeLib w libopencilk_personality openCilkPersFns openCilkPersFatal symMap2 of
        Inl fatal \<Rightarrow> FatalError fatal
      | Inr symMap3 \<Rightarrow>
     (case addRuntimeLib w timerFuncs timerFns timerFatal symMap3 of
        Inl fatal \<Rightarrow> FatalError fatal
      | Inr symMap4 \<Rightarrow>
          if defineAbsoluteSymbols w symMap4 \<noteq> None then FatalError cantFailMsg
          else if initialize w dylib \<noteq> None then FatalError cantFailMsg
          else Returned (Inr dylib)))))"

text \<open>
  \<open>ExecutionEngine::loadModule\<close> (part_002).  The module pointer returned by the translation
  is used (\<open>llvmModule->setCodeModel\<close> and the three setters after it) before it is tested.
  The second component is \<open>uniqueNameCounter\<close> after the call.
\<close>

definition loadModule :: "'m world \<Rightarrow> nat \<Rightarrow> 'm option \<Rightarrow> addr outcome \<times> nat" where
  "loadModule w uniqueNameCounter m =
     (case m of
        None \<Rightarrow> (AssertionFailure, uniqueNameCounter)
      | Some m' \<Rightarrow>
     (let llvmModule = translateModuleToLLVMIR w m'
      in case llvmModule of
           None \<Rightarrow> (NullDereference, uniqueNameCounter)
         | Some lm \<Rightarrow>
     (let lm = lm\<lparr>codeModel := CodeModelLarge, picLevel := BigPIC, pieLevel := LargePIE,
                  directAccessExternalData := True\<rparr>
      in if llvmModule = None
         then (Returned (Inl (StringError ''could not convert to LLVM IR'')), uniqueNameCounter)
         else if (case transformer w of None \<Rightarrow> False | Some t \<Rightarrow> t lm \<noteq> None)
         then (FatalError cantFailMsg, uniqueNameCounter)
         else
     (let (number, counter) = uniqueName (jitDylibNumbers w) uniqueNameCounter
      in case createJITDylib w number of
           Inl err \<Rightarrow> (Returned (Inl (JITError err)), counter)
         | Inr dylib \<Rightarrow>
             if dylib = 0 then (AssertionFailure, counter)
             else if getForCurrentProcess w \<noteq> None then (FatalError cantFailMsg, counter)
             else if (case symbolMap w of None \<Rightarrow> False | Some r \<Rightarrow> r \<noteq> None)
             then (FatalError cantFailMsg, counter)
             else if addIRModule w lm \<noteq> None then (FatalError cantFailMsg, counter)
             else (linkRuntime w dylib, counter)))))"

text \<open>
  The other copy of the file (part_003) loads \<open>libkitrt.so\<close> only, with eleven functions,
  and reads \<open>llvmModule->getDataLayout()\<close> as well before the test.
\<close>

definition kitcudaFns_003 :: "string list" where
  "kitcudaFns_003 =
     [''__cudaRegisterFatBinary'', ''__cudaRegisterFatBinaryEnd'', ''__cudaUnregisterFatBinary'',
      ''__kitcuda_use_occupancy_launch'', ''__kitcuda_initialize'', ''__kitcuda_destroy'',
      ''__kitcuda_launch_kernel'', ''__kitcuda_mem_gpu_prefetch'',
      ''__kitcuda_set_default_threads_per_blk'', ''__kitcuda_sync_thread_stream'',
      ''__kitcuda_mem_alloc_managed_numba'']"

definition linkRuntime_003 :: "'m world \<Rightarrow> addr \<Rightarrow> addr outcome" where
  "linkRuntime_003 w dylib =
     (case addRuntimeLib w libkitrt kitcudaFns_003 kitcudaFatal [] of
        Inl fatal \<Rightarrow> FatalError fatal
      | Inr symMap \<Rightarrow>
          if defineAbsoluteSymbols w symMap \<noteq> None then FatalError cantFailMsg
          else if initialize w dylib \<noteq> None then FatalError cantFailMsg
          else Returned (Inr dylib))"

definition loadModule_003 :: "'m world \<Rightarrow> nat \<Rightarrow> 'm option \<Rightarrow> addr outcome \<times> nat" where
  "loadModule_003 w uniqueNameCounter m =
     (case m of
        None \<Rightarrow> (AssertionFailure, uniqueNameCounter)
      | Some m' \<Rightarrow>
     (let llvmModule = translateModuleToLLVMIR w m'
      in case llvmModule of
           None \<Rightarrow> (NullDereference, uniqueNameCounter)
         | Some lm \<Rightarrow>
     (let lm = lm\<lparr>codeModel := CodeModelLarge, picLevel := BigPIC, pieLevel := LargePIE,
                  directAccessExternalData := True\<rparr>
      in if llvmModule = None
         then (Returned (Inl (StringError ''could not convert to LLVM IR'')), uniqueNameCounter)
         else if (case transformer w of None \<Rightarrow> False | Some t \<Rightarrow> t lm \<noteq> None)
         then (FatalError cantFailMsg, uniqueNameCounter)
         else
     (let (number, counter) = uniqueName (jitDylibNumbers w) uniqueNameCounter
      in case createJITDylib w number of
           Inl err \<Rightarrow> (Returned (Inl (JITError err)), counter)
         | Inr dylib \<Rightarrow>
             if dylib = 0 then (AssertionFailure, counter)
             else if getForCurrentProcess w \<noteq> None then (FatalError cantFailMsg, counter)
             else if (case symbolMap w of None \<Rightarrow> False | Some r \<Rightarrow> r \<noteq> None)
             then (FatalError cantFailMsg, counter)
             else if addIRModule w lm \<noteq> None then (FatalError cantFailMsg, counter)
             else (linkRuntime_003 w dylib, counter)))))"

text \<open>
  What \<open>jit->lookup\<close> finds for a name in a dylib: the address of a symbol that has been
  materialised (it may be null), a symbol defined by a module that \<open>addIRModule\<close> has added
  and that is not compiled yet, or no symbol, with the JIT's error message.
\<close>

datatype jit_symbol = Materialized addr | NotCompiled llvm_module | NotFound string

text \<open>
  The JIT that the constructor of the engine builds, as \<open>lookup\<close> meets it: its symbols;
  the environment of the process; \<open>options.lateTransformer\<close> (the error or the module as
  transformed) and \<open>options.asmPrinter\<close> (whether it is set); the two default pipelines of
  LLVM that \<open>runOptimizationPasses\<close> builds (\<open>O1\<close> without loop unrolling, vectorisation
  and strip-mining, then \<open>O3\<close>), each for the Tapir target chosen; the effect of
  \<open>tapirifyLoopPass\<close> on a function (it works on the loops, which the model does not hold;
  it reads \<open>NM_TAPIRTARGET\<close> again when it splits one); whether the target machine refuses
  to emit assembly (\<open>addPassesToEmitFile\<close> returns true) and what the assembly passes leave
  of the module; \<open>llvm::orc::SimpleCompiler\<close>; the object linking layer (the JIT's error or
  the address of a symbol of the object); and the message of the JIT's error for a symbol
  whose module did not compile.
\<close>

record 'o jit_session =
  symbols :: "addr \<Rightarrow> string \<Rightarrow> jit_symbol"
  getenv :: "string \<Rightarrow> string option"
  lateTransformer :: "(llvm_module \<Rightarrow> string + llvm_module) option"
  asmPrinter :: bool
  firstPipeline :: "bool \<Rightarrow> llvm_module \<Rightarrow> llvm_module"
  tapirifyLoopPass :: "bool \<Rightarrow> llvm_function \<Rightarrow> llvm_function"
  secondPipeline :: "bool \<Rightarrow> llvm_module \<Rightarrow> llvm_module"
  addPassesToEmitFile :: bool
  asmPasses :: "llvm_module \<Rightarrow> llvm_module"
  simpleCompiler :: "llvm_module \<Rightarrow> string + 'o"
  linkObject :: "'o \<Rightarrow> string \<Rightarrow> string + addr"
  failedToMaterialize :: "addr \<Rightarrow> string \<Rightarrow> string"

definition bindOutcome :: "'a outcome \<Rightarrow> ('a \<Rightarrow> 'b outcome) \<Rightarrow> 'b outcome" where
  "bindOutcome r f =
     (case r of
        Returned res \<Rightarrow> (case res of Inl err \<Rightarrow> Returned (Inl err) | Inr x \<Rightarrow> f x)
      | FatalError msg \<Rightarrow> FatalError msg
      | AssertionFailure \<Rightarrow> AssertionFailure
      | NullDereference \<Rightarrow> NullDereference)"

fun mapOutcome :: "('a \<Rightarrow> 'b outcome) \<Rightarrow> 'a list \<Rightarrow> 'b list outcome" where
  "mapOutcome f [] = Returned (Inr [])"
| "mapOutcome f (x # xs) =
     bindOutcome (f x) (\<lambda>y. bindOutcome (mapOutcome f xs) (\<lambda>ys. Returned (Inr (y # ys))))"

text \<open>
  \<open>strcmp(tapirTarget, "opencilk") == 0\<close> on the result of \<open>std::getenv\<close>, which is not
  tested: \<open>strcmp\<close> reads through a null pointer when the variable is not set.
\<close>

definition isOpenCilk :: "string option \<Rightarrow> bool outcome" where
  "isOpenCilk tapirTarget =
     (case tapirTarget of
        None \<Rightarrow> NullDereference
      | Some target \<Rightarrow> Returned (Inr (target = ''opencilk'')))"

text \<open>
  \<open>replaceNRTAllocPass::run\<close>.  The first loop takes the name of the called function of
  every call instruction, through the pointer that \<open>getCalledFunction()\<close> returns.  The
  second replaces every call of \<open>NRT_MemInfo_alloc_safe_aligned\<close> it has found by a call of
  the managed allocator of the target with the type of the old callee and the operands \<open>0\<close>
  and \<open>1\<close> of the old call: \<open>getOperand(1)\<close> asserts on a call without arguments (its one
  operand is the callee), \<open>CallInst::Create\<close> asserts unless the call had two arguments.
\<close>

definition hasCalledFunction :: "instruction \<Rightarrow> bool" where
  "hasCalledFunction i = (case i of CallInst callee nargs \<Rightarrow> callee \<noteq> None | OtherInst \<Rightarrow> True)"

definition replaceCall :: "(string \<Rightarrow> string option) \<Rightarrow> instruction \<Rightarrow> instruction outcome" where
  "replaceCall env i =
     (case i of
        CallInst callee nargs \<Rightarrow>
          if callee = Some ''NRT_MemInfo_alloc_safe_aligned''
          then if nargs = 0 then AssertionFailure
               else bindOutcome (isOpenCilk (env ''NM_TAPIRTARGET''))
                      (\<lambda>opencilk.
                         if nargs \<noteq> 2 then AssertionFailure
                         else Returned (Inr (CallInst
                                (Some (if opencilk then ''__kitcuda_mem_alloc_managed_numba_oc''
                                       else ''__kitcuda_mem_alloc_managed_numba_cu'')) 2)))
          else Returned (Inr i)
      | OtherInst \<Rightarrow> Returned (Inr i))"

definition replaceNRTAllocPass ::
    "(string \<Rightarrow> string option) \<Rightarrow> llvm_function \<Rightarrow> llvm_function outcome" where
  "replaceNRTAllocPass env f =
     (if \<not> list_all hasCalledFunction (instructions f) then NullDereference
      else bindOutcome (mapOutcome (replaceCall env) (instructions f))
             (\<lambda>replaced. Returned (Inr (f\<lparr>instructions := replaced\<rparr>))))"

text \<open>
  \<open>runOptimizationPasses\<close>: the attributes it adds to \<open>nmrtCreateAllocToken\<close> are not part
  of the model; \<open>NM_TAPIRTARGET\<close> is read and compared; the first pass manager runs the
  \<open>O1\<close> pipeline, \<open>replaceNRTAllocPass\<close> on every function and \<open>tapirifyLoopPass\<close> on every
  function; the second runs the \<open>O3\<close> pipeline.  (\<open>mapToLevel\<close> covers the four levels of
  the code generator, and its result is not used.)
\<close>

definition runOptimizationPasses :: "'o jit_session \<Rightarrow> llvm_module \<Rightarrow> llvm_module outcome" where
  "runOptimizationPasses s M =
     bindOutcome (isOpenCilk (getenv s ''NM_TAPIRTARGET''))
       (\<lambda>opencilk.
          let M1 = firstPipeline s opencilk M
          in bindOutcome (mapOutcome (replaceNRTAllocPass (getenv s)) (moduleFunctions M1))
               (\<lambda>replaced.
                  let M2 = M1\<lparr>moduleFunctions := map (tapirifyLoopPass s opencilk) replaced\<rparr>
                  in Returned (Inr (secondPipeline s opencilk M2))))"

text \<open>
  \<open>CustomCompiler::operator()\<close>: the late transformer, whose error is returned;
  \<open>setupModule\<close> (data layout, triple and target attributes, which the model does not
  hold); \<open>runOptimizationPasses\<close>; the assembly printer, if set; \<open>SimpleCompiler\<close>.
\<close>

definition CustomCompiler :: "'o jit_session \<Rightarrow> llvm_module \<Rightarrow> 'o outcome" where
  "CustomCompiler s M =
     (case (case lateTransformer s of None \<Rightarrow> Inr M | Some t \<Rightarrow> t M) of
        Inl err \<Rightarrow> Returned (Inl (JITError err))
      | Inr transformed \<Rightarrow>
          bindOutcome (runOptimizationPasses s transformed)
            (\<lambda>optimized.
               if asmPrinter s \<and> addPassesToEmitFile s
               then Returned (Inl (StringError ''Target does not support Asm emission''))
               else case simpleCompiler s (if asmPrinter s then asmPasses s optimized
                                            else optimized) of
                      Inl err \<Rightarrow> Returned (Inl (JITError err))
                    | Inr obj \<Rightarrow> Returned (Inr obj)))"

text \<open>
  \<open>jit->lookup\<close> of LLJIT: a symbol of a module that is not compiled yet is materialised
  first, by the compiler that \<open>compileFunctionCreator\<close> has made, the \<open>CustomCompiler\<close>.
  When the compiler returns an error, the JIT reports it and the lookup fails with the
  JIT's own error; otherwise the object is linked.  Afterwards the symbols of the module are
  materialised, or failed.  The second component is the JIT after the call.
\<close>

definition compiledSymbols ::
    "'o jit_session \<Rightarrow> addr \<Rightarrow> llvm_module \<Rightarrow> (string \<Rightarrow> string + addr) \<Rightarrow> 'o jit_session" where
  "compiledSymbols s dylib M resolve =
     s\<lparr>symbols := (\<lambda>h n. if h = dylib \<and> symbols s h n = NotCompiled M
                           then (case resolve n of Inl err \<Rightarrow> NotFound err
                                 | Inr address \<Rightarrow> Materialized address)
                           else symbols s h n)\<rparr>"

definition LLJIT_lookup :: "'o jit_session \<Rightarrow> addr \<Rightarrow> string \<Rightarrow> addr outcome \<times> 'o jit_session" where
  "LLJIT_lookup s dylib name =
     (case symbols s dylib name of
        Materialized address \<Rightarrow> (Returned (Inr address), s)
      | NotFound err \<Rightarrow> (Returned (Inl (JITError err)), s)
      | NotCompiled M \<Rightarrow>
          (case CustomCompiler s M of
             Returned compiled \<Rightarrow>
               (case compiled of
                  Inl err \<Rightarrow>
                    (Returned (Inl (JITError (failedToMaterialize s dylib name))),
                     compiledSymbols s dylib M (\<lambda>n. Inl (failedToMaterialize s dylib n)))
                | Inr obj \<Rightarrow>
                    ((case linkObject s obj name of
                        Inl err \<Rightarrow> Returned (Inl (JITError err))
                      | Inr address \<Rightarrow> Returned (Inr address)),
                     compiledSymbols s dylib M (linkObject s obj)))
           | FatalError msg \<Rightarrow> (FatalError msg, s)
           | AssertionFailure \<Rightarrow> (AssertionFailure, s)
           | NullDereference \<Rightarrow> (NullDereference, s)))"

text \<open>\<open>ei.log(os)\<close>: the message of an error.\<close>

definition errorMessage :: "error \<Rightarrow> string" where
  "errorMessage err = (case err of StringError msg \<Rightarrow> msg | JITError msg \<Rightarrow> msg)"

text \<open>
  \<open>ExecutionEngine::lookup\<close>: the JIT's error is rewrapped into a string error; a symbol
  that resolves to null is a string error as well.  The function is \<open>const\<close>, the JIT it
  holds by pointer is not: the second component is the JIT after the call.
\<close>

definition lookup :: "'o jit_session \<Rightarrow> addr \<Rightarrow> string \<Rightarrow> addr outcome \<times> 'o jit_session" where
  "lookup s handle name =
     (if handle = 0 then (AssertionFailure, s)
      else case LLJIT_lookup s handle name of
             (expectedSymbol, s') \<Rightarrow>
               (case expectedSymbol of
                  Returned symbol \<Rightarrow>
                    (case symbol of
                       Inl err \<Rightarrow> (Returned (Inl (StringError (errorMessage err))), s')
                     | Inr fptr \<Rightarrow>
                         if fptr \<noteq> 0 then (Returned (Inr fptr), s')
                         else (Returned (Inl (StringError ''looked up function is null'')), s'))
                | FatalError msg \<Rightarrow> (FatalError msg, s')
                | AssertionFailure \<Rightarrow> (AssertionFailure, s')
                | NullDereference \<Rightarrow> (NullDereference, s')))"

text \<open>
  What \<open>lookup\<close> needs of a module that is still to be compiled, so that the passes of the
  engine run through: every call instruction of the module that the first pipeline leaves
  has a called function, and the calls of \<open>NRT_MemInfo_alloc_safe_aligned\<close> have two
  arguments.
\<close>

definition callsResolved :: "llvm_module \<Rightarrow> bool" where
  "callsResolved M =
     list_all (\<lambda>f. list_all (\<lambda>i. case i of
                                     CallInst callee nargs \<Rightarrow>
                                       callee \<noteq> None \<and>
                                       (callee \<noteq> Some ''NRT_MemInfo_alloc_safe_aligned'' \<or> nargs = 2)
                                   | OtherInst \<Rightarrow> True) (instructions f)) (moduleFunctions M)"

text \<open>
  A host on which everything succeeds except that \<open>libkitrt.so\<close> opens but exports none of
  the functions asked for, and one on which the translation to LLVM IR fails.
\<close>

definition emptyModule :: llvm_module where
  "emptyModule = \<lparr>codeModel = CodeModelDefault, picLevel = NotPIC, pieLevel = DefaultPIE,
                   directAccessExternalData = False, moduleFunctions = []\<rparr>"

definition hostWithoutKitcuda :: "unit world" where
  "hostWithoutKitcuda =
     \<lparr>translateModuleToLLVMIR = (\<lambda>m. Some emptyModule),
      transformer = None,
      jitDylibNumbers = [0, 1],
      createJITDylib = (\<lambda>k. Inr (100 + k)),
      getForCurrentProcess = None,
      symbolMap = None,
      addIRModule = (\<lambda>lm. None),
      dlopen = (\<lambda>path. if path = libkitrt then 7 else 0),
      dlsym = (\<lambda>h fn. 0),
      defineAbsoluteSymbols = (\<lambda>symMap. None),
      initialize = (\<lambda>dylib. None)\<rparr>"

definition hostWithoutTranslation :: "unit world" where
  "hostWithoutTranslation = hostWithoutKitcuda\<lparr>translateModuleToLLVMIR := (\<lambda>m. None)\<rparr>"

definition hostWithoutLibraries :: "unit world" where
  "hostWithoutLibraries = hostWithoutKitcuda\<lparr>dlopen := (\<lambda>path. 0)\<rparr>"

definition hostWithoutDylib :: "unit world" where
  "hostWithoutDylib =
     hostWithoutLibraries\<lparr>createJITDylib := (\<lambda>k. Inl ''Duplicate definition of symbol'')\<rparr>"

text \<open>
  A JIT holding a module that is not compiled yet, whose function \<open>main\<close> calls the NRT
  allocator, and a symbol \<open>null\<close> that resolves to null, in a process where
  \<open>NM_TAPIRTARGET\<close> is \<open>cuda\<close>; the same JIT in a process where the variable is not set.
\<close>

definition mainModule :: llvm_module where
  "mainModule =
     emptyModule\<lparr>moduleFunctions :=
       [\<lparr>functionName = ''main'',
         instructions = [CallInst (Some ''NRT_MemInfo_alloc_safe_aligned'') 2, OtherInst]\<rparr>]\<rparr>"

definition cudaSession :: "unit jit_session" where
  "cudaSession =
     \<lparr>symbols = (\<lambda>h name. if name = ''main'' then NotCompiled mainModule
                           else if name = ''null'' then Materialized 0
                           else NotFound ''Symbols not found''),
      getenv = (\<lambda>variable. if variable = ''NM_TAPIRTARGET'' then Some ''cuda'' else None),
      lateTransformer = None,
      asmPrinter = False,
      firstPipeline = (\<lambda>opencilk M. M),
      tapirifyLoopPass = (\<lambda>opencilk f. f),
      secondPipeline = (\<lambda>opencilk M. M),
      addPassesToEmitFile = False,
      asmPasses = (\<lambda>M. M),
      simpleCompiler = (\<lambda>M. Inr ()),
      linkObject = (\<lambda>obj name. Inr 4096),
      failedToMaterialize = (\<lambda>dylib name. ''Failed to materialize symbols'')\<rparr>"

definition bareSession :: "unit jit_session" where
  "bareSession = cudaSession\<lparr>getenv := (\<lambda>variable. None)\<rparr>"

section \<open>Parallel-Loop Rewriter: the rewritten loop and the sequential loop\<close>

lemma applyArith_integerKind:
  "integerKind k \<Longrightarrow> applyArith k a b = Some (kindOp k a b)"
  by (auto simp: integerKind_def kindOp_def applyArith_def)

lemma maxsi_commute: "maxsi a b = maxsi b a"
  by (auto simp: maxsi_def dest: signed_word_eqI)

lemma maxsi_assoc: "maxsi (maxsi a b) c = maxsi a (maxsi b c)"
  by (auto simp: maxsi_def)

lemma minsi_commute: "minsi a b = minsi b a"
  by (auto simp: minsi_def dest: signed_word_eqI)

lemma minsi_assoc: "minsi (minsi a b) c = minsi a (minsi b c)"
  by (auto simp: minsi_def)

lemma kindOp_commute: "integerKind k \<Longrightarrow> kindOp k a b = kindOp k b a"
  unfolding integerKind_def kindOp_def applyArith_def
  by (auto simp: ac_simps maxsi_commute minsi_commute max.commute min.commute)

lemma kindOp_assoc:
  "integerKind k \<Longrightarrow> kindOp k (kindOp k a b) c = kindOp k a (kindOp k b c)"
  unfolding integerKind_def kindOp_def applyArith_def
  by (auto simp: ac_simps maxsi_assoc minsi_assoc max.assoc min.assoc)

lemma sint_signed_min:
  "sint (word_of_int (- (2 ^ (LENGTH('a) - 1))) :: 'a::len word) = - (2 ^ (LENGTH('a) - 1))"
proof -
  have "sint (word_of_int (- (2 ^ (LENGTH('a) - 1))) :: 'a word) =
          signed_take_bit (LENGTH('a) - 1) (- (2 ^ (LENGTH('a) - 1)))"
    by (rule sint_sbintrunc')
  also have "\<dots> = - (2 ^ (LENGTH('a) - 1))"
    by (rule signed_take_bit_int_eq_self) simp_all
  finally show ?thesis .
qed

lemma sint_signed_max:
  "sint (word_of_int (2 ^ (LENGTH('a) - 1) - 1) :: 'a::len word) = 2 ^ (LENGTH('a) - 1) - 1"
proof -
  have "sint (word_of_int (2 ^ (LENGTH('a) - 1) - 1) :: 'a word) =
          signed_take_bit (LENGTH('a) - 1) (2 ^ (LENGTH('a) - 1) - 1)"
    by (rule sint_sbintrunc')
  also have "\<dots> = 2 ^ (LENGTH('a) - 1) - 1"
    by (rule signed_take_bit_int_eq_self) simp_all
  finally show ?thesis .
qed

lemma sint_inj: "sint a = sint b \<Longrightarrow> a = b"
  by (auto dest: signed_word_eqI)

lemma maxsi_neutral:
  "maxsi (word_of_int (- (2 ^ (LENGTH('a) - 1))) :: 'a::len word) a = a"
proof -
  let ?m = "word_of_int (- (2 ^ (LENGTH('a) - 1))) :: 'a word"
  have "sint ?m \<le> sint a" unfolding sint_signed_min by (rule sint_ge)
  then have "sint ?m < sint a \<or> ?m = a"
    by (cases "sint ?m = sint a") (auto dest: sint_inj)
  then show ?thesis unfolding maxsi_def by auto
qed

lemma minsi_neutral:
  "minsi (word_of_int (2 ^ (LENGTH('a) - 1) - 1) :: 'a::len word) a = a"
proof -
  let ?m = "word_of_int (2 ^ (LENGTH('a) - 1) - 1) :: 'a word"
  have "sint a < 2 ^ (LENGTH('a) - 1)" by (rule sint_lt)
  then have "sint a \<le> sint ?m" unfolding sint_signed_max by simp
  then have "sint a < sint ?m \<or> ?m = a"
    by (cases "sint ?m = sint a") (auto dest: sint_inj)
  then show ?thesis unfolding minsi_def by auto
qed

lemma minui_neutral: "min (- 1) a = (a :: 'a::len word)"
  by (simp add: min_def word_order.extremum_unique)

lemma kindOp_neutral:
  assumes "integerKind k"
    and "neutralElement k (IntegerType LENGTH('a)) = Done (Some (Some (IntegerAttr t n)))"
  shows "kindOp k (word_of_int n :: 'a::len word) a = a"
proof -
  consider "k = AddI" | "k = OrI" | "k = XOrI" | "k = AndI" | "k = MaxUI" | "k = MinUI"
    | "k = MaxSI" | "k = MinSI" | "k = MulI"
    using assms(1) by (auto simp: integerKind_def)
  then show ?thesis
  proof cases
    case 7
    with assms(2) have "n = - (2 ^ (LENGTH('a) - 1))" by (simp add: neutralElement_def)
    with 7 show ?thesis using maxsi_neutral [of a] by (simp only: kindOp_def applyArith_def arith_kind.case option.sel)
  next
    case 8
    with assms(2) have "n = 2 ^ (LENGTH('a) - 1) - 1" by (simp add: neutralElement_def)
    with 8 show ?thesis using minsi_neutral [of a] by (simp only: kindOp_def applyArith_def arith_kind.case option.sel)
  next
    case 6
    with assms(2) show ?thesis
      by (auto simp: neutralElement_def kindOp_def applyArith_def minui_neutral)
  qed (use assms(2) in \<open>auto simp: neutralElement_def getZeroAttr_def kindOp_def applyArith_def\<close>)
qed

lemma accumulate_total:
  "accumulate (\<lambda>a x. Some (F a x)) a xs = Some (foldl F a xs)"
  by (induction xs arbitrary: a) simp_all

lemma accumulate_append:
  "accumulate f a (xs @ ys) =
     (case accumulate f a xs of None \<Rightarrow> None | Some a' \<Rightarrow> accumulate f a' ys)"
  by (induction xs arbitrary: a) (simp_all split: option.splits)

lemma accumulate_cong:
  "(\<And>a x. x \<in> set xs \<Longrightarrow> f a x = g a x) \<Longrightarrow> accumulate f a xs = accumulate g a xs"
  by (induction xs arbitrary: a) (simp_all split: option.splits)

lemma foldl_shift:
  assumes "commutativeMonoid F e"
  shows "foldl F a xs = F a (foldl F e xs)"
proof (induction xs arbitrary: a rule: rev_induct)
  case Nil
  from assms have "F a e = a" unfolding commutativeMonoid_def by metis
  then show ?case by simp
next
  case (snoc x xs)
  from assms have assoc: "\<And>a b c. F (F a b) c = F a (F b c)"
    unfolding commutativeMonoid_def by blast
  have "foldl F a (xs @ [x]) = F (foldl F a xs) x" by simp
  also have "\<dots> = F (F a (foldl F e xs)) x" by (simp only: snoc.IH [of a])
  also have "\<dots> = F a (F (foldl F e xs) x)" by (rule assoc)
  also have "\<dots> = F a (foldl F e (xs @ [x]))" by simp
  finally show ?case .
qed

lemma foldl_mset:
  assumes "commutativeMonoid F e" and "mset xs = mset ys"
  shows "foldl F a xs = foldl F a ys"
proof -
  from assms(1) have comm: "\<And>x y. (\<lambda>a. F a x) \<circ> (\<lambda>a. F a y) = (\<lambda>a. F a y) \<circ> (\<lambda>a. F a x)"
    unfolding commutativeMonoid_def fun_eq_iff comp_def by metis
  have "fold (\<lambda>x a. F a x) xs = fold (\<lambda>x a. F a x) ys"
    by (rule fold_multiset_equiv) (use comm assms(2) in auto)
  then show ?thesis by (simp add: foldl_conv_fold)
qed

lemma foldl_update:
  assumes "commutativeMonoid F e" and "t < length b"
  shows "foldl F e (b[t := F (b ! t) c]) = F (foldl F e b) c"
proof -
  from assms(1) have comm: "\<And>a b. F a b = F b a"
    and assoc: "\<And>a b c. F (F a b) c = F a (F b c)"
    unfolding commutativeMonoid_def by blast+
  have b: "b = take t b @ (b ! t) # drop (Suc t) b"
    using assms(2) by (simp add: id_take_nth_drop)
  have upd: "b[t := F (b ! t) c] = take t b @ F (b ! t) c # drop (Suc t) b"
    using assms(2) by (simp add: upd_conv_take_nth_drop)
  have "foldl F e (b[t := F (b ! t) c]) =
          foldl F (F (foldl F e (take t b)) (F (b ! t) c)) (drop (Suc t) b)"
    by (simp add: upd)
  also have "\<dots> = F (F (foldl F e (take t b)) (F (b ! t) c)) (foldl F e (drop (Suc t) b))"
    by (rule foldl_shift [OF assms(1)])
  also have "\<dots> = F (F (F (foldl F e (take t b)) (b ! t)) (foldl F e (drop (Suc t) b))) c"
    by (metis comm assoc)
  also have "\<dots> = F (foldl F (F (foldl F e (take t b)) (b ! t)) (drop (Suc t) b)) c"
    using foldl_shift [OF assms(1), of "F (foldl F e (take t b)) (b ! t)" "drop (Suc t) b"]
    by simp
  also have "foldl F (F (foldl F e (take t b)) (b ! t)) (drop (Suc t) b) = foldl F e b"
    by (subst (2) b) simp
  finally show ?thesis .
qed

lemma kindOp_commutativeMonoid:
  assumes "integerKind k"
    and "neutralElement k (IntegerType LENGTH('a)) = Done (Some (Some (IntegerAttr t n)))"
  shows "commutativeMonoid (kindOp k) (word_of_int n :: 'a::len word)"
  unfolding commutativeMonoid_def
  using kindOp_commute [OF assms(1)] kindOp_assoc [OF assms(1)] kindOp_neutral [OF assms]
  by blast

lemma foldl_replicate_neutral:
  assumes "commutativeMonoid F e"
  shows "foldl F e (replicate n e) = e"
proof -
  from assms have "F e e = e" unfolding commutativeMonoid_def by blast
  then show ?thesis by (induction n) simp_all
qed

lemma initLoop_stores:
  "k \<le> length buf \<Longrightarrow>
     accumulate (\<lambda>b index. storeAt b index e) buf [0 ..< k] = Some (replicate k e @ drop k buf)"
proof (induction k)
  case 0
  show ?case by simp
next
  case (Suc k)
  then have k: "k < length buf" by simp
  have "(replicate k e @ drop k buf)[k := e] = replicate (Suc k) e @ drop (Suc k) buf"
    using k by (simp add: list_update_append replicate_append_same Cons_nth_drop_Suc [symmetric])
  with Suc k show ?case
    by (simp add: accumulate_append storeAt_def)
qed

lemma scfForIndices_unit: "0 \<le> n \<Longrightarrow> scfForIndices 0 n 1 = [0 ..< nat n]"
  by (simp add: scfForIndices_def map_idI)

lemma combine_loads:
  "k \<le> length buf \<Longrightarrow>
     accumulate (\<lambda>arg index. case loadAt buf index of None \<Rightarrow> None
                              | Some prevVal \<Rightarrow> Some (F arg prevVal)) a [0 ..< k] =
       Some (foldl F a (take k buf))"
proof (induction k)
  case 0
  show ?case by simp
next
  case (Suc k)
  then show ?case
    by (simp add: accumulate_append loadAt_def take_Suc_conv_app_nth)
qed

lemma parallel_calls:
  assumes F: "commutativeMonoid F e"
    and calls: "\<forall>call \<in> set calls. fst call < length buf"
  shows "\<exists>buf'. accumulate
            (\<lambda>b call. case loadAt b (fst call) of None \<Rightarrow> None
                       | Some val \<Rightarrow>
                           (case accumulate (\<lambda>a x. Some (F a x)) val (map g (snd call)) of
                              None \<Rightarrow> None
                            | Some res \<Rightarrow> storeAt b (fst call) res))
            buf calls = Some buf' \<and>
          length buf' = length buf \<and>
          foldl F e buf' = F (foldl F e buf) (foldl F e (map g (concat (map snd calls))))"
  using calls
proof (induction calls arbitrary: buf)
  case Nil
  from F have "F (foldl F e buf) e = foldl F e buf" unfolding commutativeMonoid_def by metis
  then show ?case by simp
next
  case (Cons call calls)
  from F have assoc: "\<And>a b c. F (F a b) c = F a (F b c)"
    unfolding commutativeMonoid_def by blast
  let ?c = "foldl F e (map g (snd call))"
  let ?b1 = "buf[fst call := F (buf ! fst call) ?c]"
  from Cons.prems have t: "fst call < length buf" by simp
  have step: "foldl F (buf ! fst call) (map g (snd call)) = F (buf ! fst call) ?c"
    by (rule foldl_shift [OF F])
  have tot1: "foldl F e ?b1 = F (foldl F e buf) ?c"
    by (rule foldl_update [OF F t])
  from Cons.prems have "\<forall>c \<in> set calls. fst c < length ?b1" by simp
  from Cons.IH [OF this] obtain buf' where
    run: "accumulate
            (\<lambda>b call. case loadAt b (fst call) of None \<Rightarrow> None
                       | Some val \<Rightarrow>
                           (case accumulate (\<lambda>a x. Some (F a x)) val (map g (snd call)) of
                              None \<Rightarrow> None
                            | Some res \<Rightarrow> storeAt b (fst call) res))
            ?b1 calls = Some buf'"
    and len: "length buf' = length ?b1"
    and tot: "foldl F e buf' = F (foldl F e ?b1) (foldl F e (map g (concat (map snd calls))))"
    by blast
  have "foldl F e (map g (concat (map snd (call # calls)))) =
          foldl F ?c (map g (concat (map snd calls)))"
    by simp
  also have "\<dots> = F ?c (foldl F e (map g (concat (map snd calls))))"
    by (rule foldl_shift [OF F])
  finally have split: "foldl F e (map g (concat (map snd (call # calls)))) =
          F ?c (foldl F e (map g (concat (map snd calls))))" .
  have "foldl F e buf' = F (foldl F e buf) (foldl F e (map g (concat (map snd (call # calls)))))"
    by (simp only: tot tot1 split assoc)
  with run len t step show ?case
    by (simp add: loadAt_def storeAt_def accumulate_total)
qed

lemma list2: "length xs = 2 \<Longrightarrow> xs = [xs ! 0, xs ! Suc 0]"
  by (cases xs; cases "tl xs") auto

lemma list1: "length xs = 1 \<Longrightarrow> xs = [hd xs]"
  by (cases xs) auto

lemma evalReduction_combinesWith:
  assumes c: "combinesWith region k type" and k: "integerKind k"
  shows "evalReduction region outer a b = Some (kindOp k a b)"
proof -
  let ?blk = "hd region"
  let ?a0 = "fst ?blk ! 0" and ?a1 = "fst ?blk ! Suc 0"
  let ?o = "snd ?blk ! 0" and ?ret = "snd ?blk ! Suc 0"
  from c have l: "length region = 1" "length (fst ?blk) = 2" "length (snd ?blk) = 2"
    by (simp_all add: combinesWith_def)
  have reg: "region = [?blk]" by (rule list1 [OF l(1)])
  have args: "fst ?blk = [?a0, ?a1]" by (rule list2 [OF l(2)])
  have ops: "snd ?blk = [?o, ?ret]" by (rule list2 [OF l(3)])
  from c have ne: "vid ?a0 \<noteq> vid ?a1" and nm: "opName ?o = Arith k"
    and opnds: "operands ?o = [?a0, ?a1] \<or> operands ?o = [?a1, ?a0]"
    and lres: "length (results ?o) = 1"
    and ret: "opName ?ret = ScfReduceReturn" "operands ?ret = results ?o"
    by (auto simp: combinesWith_def Let_def)
  from lres obtain r where res: "results ?o = [r]"
    by (cases "results ?o") auto
  have blk: "?blk = ([?a0, ?a1], [?o, ?ret])"
    using args ops by (cases ?blk) simp
  have "evalReduction region outer a b =
          evalOps [?o, ?ret] (outer(vid ?a0 := a, vid ?a1 := b))"
    by (subst reg, subst blk) (simp add: evalReduction_def)
  also have "\<dots> = Some (kindOp k a b)"
    using opnds
  proof
    assume "operands ?o = [?a0, ?a1]"
    with ne nm res ret show ?thesis
      by (simp add: applyArith_integerKind [OF k])
  next
    assume "operands ?o = [?a1, ?a0]"
    with ne nm res ret show ?thesis
      by (simp add: applyArith_integerKind [OF k] kindOp_commute [OF k, of a b])
  qed
  finally show ?thesis .
qed

lemma getReduceInitVal_combinesWith:
  assumes c: "combinesWith region k type"
  shows "getReduceInitVal t (hd region) = neutralElement k type"
proof -
  let ?o = "snd (hd region) ! 0"
  from c have len: "length (snd (hd region)) = 2" and nm: "opName ?o = Arith k"
    and res: "results ?o = [hd (results ?o)]" and ty: "vty (hd (results ?o)) = type"
    by (auto simp: combinesWith_def Let_def intro: list1)
  from len have "snd (hd region) \<noteq> []" by auto
  then have hd: "hd (snd (hd region)) = ?o" by (simp add: hd_conv_nth)
  have r: "\<And>kind. (case results ?o of [] \<Rightarrow> AssertionFailed
            | r # others \<Rightarrow> neutralElement kind (vty r)) = neutralElement kind type"
    by (subst res) (simp add: ty)
  have "getNeutralElement ?o = neutralElement k type"
    unfolding getNeutralElement_def nm
    by (cases k; simp only: r arith_kind.case opname.case) (simp_all add: neutralElement_def)
  with len hd show ?thesis
    by (simp add: getReduceInitVal_def hasSingleElement_def without_terminator_def)
qed

lemma collectInitVals_Cons:
  assumes "collectInitVals ts (r # rs) acc = Done (Some out)"
  shows "\<exists>v. getReduceInitVal (ts ! length acc) (hd r) = Done (Some v) \<and>
             collectInitVals ts rs (acc @ [v]) = Done (Some out) \<and>
             hasSingleElement r \<and> length acc < length ts"
  using assms
  by (auto simp: bindRun_def split: if_splits run.splits option.splits)

lemma collectInitVals_prefix:
  "collectInitVals ts rs acc = Done (Some out) \<Longrightarrow>
     length out = length acc + length rs \<and> take (length acc) out = acc"
proof (induction rs arbitrary: acc)
  case Nil
  then show ?case by simp
next
  case (Cons r rs)
  from collectInitVals_Cons [OF Cons.prems] obtain v
    where "collectInitVals ts rs (acc @ [v]) = Done (Some out)" by blast
  from Cons.IH [OF this] have l: "length out = length acc + 1 + length rs"
    and t: "take (length acc + 1) out = acc @ [v]" by simp_all
  have "take (length acc) out = take (length acc) (take (length acc + 1) out)"
    by (simp add: min_def)
  also have "\<dots> = acc" by (simp only: t) simp
  finally show ?case using l by simp
qed

lemma collectInitVals_nth:
  assumes "collectInitVals ts rs acc = Done (Some out)" and "i < length rs"
  shows "getReduceInitVal (ts ! (length acc + i)) (hd (rs ! i)) =
           Done (Some (out ! (length acc + i)))"
  using assms
proof (induction rs arbitrary: acc i)
  case Nil
  then show ?case by simp
next
  case (Cons r rs)
  from collectInitVals_Cons [OF Cons.prems(1)] obtain v
    where v: "getReduceInitVal (ts ! length acc) (hd r) = Done (Some v)"
      and rest: "collectInitVals ts rs (acc @ [v]) = Done (Some out)"
    by blast
  show ?case
  proof (cases i)
    case 0
    from collectInitVals_prefix [OF rest]
    have "take (length acc + 1) out = acc @ [v]" by simp
    then have "out ! length acc = (acc @ [v]) ! length acc"
      by (metis less_add_one nth_take)
    with 0 v show ?thesis by simp
  next
    case (Suc j)
    with Cons.prems(2) have "j < length rs" by simp
    from Cons.IH [OF rest this] Suc show ?thesis by simp
  qed
qed

lemma getReduceType_Some:
  "getReduceType type cnt \<noteq> None \<Longrightarrow>
     the (getReduceType type cnt) = MemRefType [cnt] type IdentityLayout 0"
  by (simp add: getReduceType_def split: if_splits)

lemma accepted_ir:
  assumes "ParallelToTbb_matchAndRewrite parent ancestors p = (Success, Some ir)"
  shows "reduceLowerBound ir = 0" and "reduceStep ir = 1" and "1 < reduceUpperBound ir"
    and "clonedLoop ir = p" and "combineRegions ir = reductions p"
    and "combineInitVals ir = initVals p"
    and "\<exists>neutral. collectInitVals (getResultTypes p) (reductions p) [] = Done (Some neutral) \<and>
           assertionsHold p neutral \<and> initStores ir = map the neutral"
    and "reduceVars ir =
           map (\<lambda>type. MemRefType [reduceUpperBound ir] type IdentityLayout 0) (getResultTypes p)"
  using assms
  by (auto simp: ParallelToTbb_matchAndRewrite_def Let_def getReduceType_Some
      split: if_splits option.splits run.splits)

lemma rewritten_is_sequential:
  fixes outer :: "nat \<Rightarrow> 'a::len word"
  assumes acc: "ParallelToTbb_matchAndRewrite parent ancestors p = (Success, Some ir)"
    and i: "i < length (reductions p)"
    and rt: "getResultTypes p ! i = IntegerType LENGTH('a)"
    and k: "integerKind k"
    and c: "combinesWith (reductions p ! i) k (IntegerType LENGTH('a))"
    and calls: "\<forall>call \<in> set calls. int (fst call) < reduceUpperBound ir"
    and iters: "mset (concat (map snd calls)) = mset iters"
  shows "rewrittenLoop ir outer operand uninit calls i =
           Some (foldl (kindOp k) (outer (vid (initVals p ! i))) (map (operand i) iters))"
    and "sequentialLoop p outer operand iters i =
           Some (foldl (kindOp k) (outer (vid (initVals p ! i))) (map (operand i) iters))"
proof -
  note ir = accepted_ir [OF acc]
  let ?F = "kindOp k :: 'a word \<Rightarrow> 'a word \<Rightarrow> 'a word"
  let ?init = "outer (vid (initVals p ! i))"
  let ?n = "nat (reduceUpperBound ir)"
  have ev: "evalReduction (reductions p ! i) outer = (\<lambda>a b. Some (?F a b))"
    by (intro ext) (rule evalReduction_combinesWith [OF c k])
  show seq: "sequentialLoop p outer operand iters i =
           Some (foldl ?F ?init (map (operand i) iters))"
    by (simp add: sequentialLoop_def ev accumulate_total)
  from ir(7) obtain neutral
    where coll: "collectInitVals (getResultTypes p) (reductions p) [] = Done (Some neutral)"
      and hold: "assertionsHold p neutral" and stores: "initStores ir = map the neutral"
    by blast
  from collectInitVals_prefix [OF coll] have ln: "length neutral = length (reductions p)"
    by simp
  from hold ln have lr: "length (getResultTypes p) = length (reductions p)"
    by (simp add: assertionsHold_def getResultTypes_def)
  from collectInitVals_nth [OF coll i]
  have "getReduceInitVal (getResultTypes p ! i) (hd (reductions p ! i)) = Done (Some (neutral ! i))"
    by simp
  then have ne: "neutralElement k (IntegerType LENGTH('a)) = Done (Some (neutral ! i))"
    by (simp add: getReduceInitVal_combinesWith [OF c])
  then have "\<exists>t n. neutral ! i = Some (IntegerAttr t n)"
    using k by (auto simp: neutralElement_def getZeroAttr_def integerKind_def dest: sym)
  then obtain t n where attr: "neutral ! i = Some (IntegerAttr t n)" by blast
  have st: "initStores ir ! i = IntegerAttr t n"
    using i ln attr by (simp add: stores)
  let ?e = "word_of_int n :: 'a word"
  from ne attr have mon: "commutativeMonoid ?F ?e"
    by (intro kindOp_commutativeMonoid [OF k]) simp
  have idx: "scfForIndices (reduceLowerBound ir) (reduceUpperBound ir) (reduceStep ir) = [0 ..< ?n]"
    using ir(1-3) by (simp add: scfForIndices_unit)
  have var: "reduceVars ir ! i =
               MemRefType [reduceUpperBound ir] (IntegerType LENGTH('a)) IdentityLayout 0"
    using i lr rt by (simp add: ir(8))
  have ilen: "i < length (reduceVars ir)"
    using i lr by (simp add: ir(8))
  let ?alloca = "map uninit [0 ..< ?n]"
  have alloc: "allocaBuffer (reduceVars ir ! i) uninit = Some ?alloca"
    using ir(3) by (simp add: var allocaBuffer_def)
  have init: "initLoop ir i ?alloca = Some (replicate ?n ?e)"
    using initLoop_stores [of "length ?alloca" ?alloca ?e]
    by (simp add: initLoop_def st attrWord_def idx)
  have body: "parallelBody ir outer operand i =
      (\<lambda>b call. case loadAt b (fst call) of None \<Rightarrow> None
                 | Some val \<Rightarrow>
                     (case accumulate (\<lambda>a x. Some (?F a x)) val (map (operand i) (snd call)) of
                        None \<Rightarrow> None
                      | Some res \<Rightarrow> storeAt b (fst call) res))"
    unfolding parallelBody_def ir(4) ev by (rule refl)
  from calls have "\<forall>call \<in> set calls. fst call < length (replicate ?n ?e)"
    by auto
  from parallel_calls [OF mon this, of "operand i"] obtain buf' where
    run: "accumulate (parallelBody ir outer operand i) (replicate ?n ?e) calls = Some buf'"
    and len': "length buf' = ?n"
    and tot: "foldl ?F ?e buf' =
                ?F (foldl ?F ?e (replicate ?n ?e))
                   (foldl ?F ?e (map (operand i) (concat (map snd calls))))"
    unfolding body by auto
  have comb: "combineLoop ir outer i buf' = Some (foldl ?F ?init buf')"
    unfolding combineLoop_def ir(5,6) ev idx
    using combine_loads [of "length buf'" buf' ?F ?init] len'
    by simp
  from mon have e_left: "\<And>a. ?F ?e a = a" unfolding commutativeMonoid_def by blast
  have "foldl ?F ?init buf' = ?F ?init (foldl ?F ?e buf')"
    by (rule foldl_shift [OF mon])
  also have "\<dots> = ?F ?init (foldl ?F ?e (map (operand i) (concat (map snd calls))))"
    by (simp only: tot foldl_replicate_neutral [OF mon] e_left)
  also have "\<dots> = foldl ?F ?init (map (operand i) (concat (map snd calls)))"
    by (rule foldl_shift [OF mon, symmetric])
  also have "\<dots> = foldl ?F ?init (map (operand i) iters)"
    by (rule foldl_mset [OF mon]) (simp add: iters)
  finally have "foldl ?F ?init buf' = foldl ?F ?init (map (operand i) iters)" .
  with ilen alloc init run comb
  show "rewrittenLoop ir outer operand uninit calls i =
           Some (foldl ?F ?init (map (operand i) iters))"
    by (simp add: rewrittenLoop_def)
qed

section \<open>Parallel-Loop Rewriter: when the pattern rewrites\<close>

lemma getReduceInitVal_Done:
  assumes "getReduceInitVal t blk = Done (Some v)"
  shows "\<exists>operation ret. snd blk = [operation, ret] \<and> getNeutralElement operation = Done (Some v)"
proof -
  from assms have len: "length (snd blk) = 2" and n: "getNeutralElement (hd (snd blk)) = Done (Some v)"
    by (auto simp: getReduceInitVal_def hasSingleElement_def without_terminator_def
        split: if_splits)
  from list2 [OF len] have "snd blk = [snd blk ! 0, snd blk ! Suc 0]" .
  moreover from len have "hd (snd blk) = snd blk ! 0" by (cases "snd blk") auto
  ultimately show ?thesis using n by metis
qed

lemma collectInitVals_regions:
  assumes "collectInitVals ts rs acc = Done (Some out)" and "region \<in> set rs"
  shows "\<exists>args operation ret i. region = [(args, [operation, ret])] \<and> i < length out \<and>
           getNeutralElement operation = Done (Some (out ! i))"
  using assms
proof (induction rs arbitrary: acc)
  case Nil
  then show ?case by simp
next
  case (Cons r rs)
  from collectInitVals_Cons [OF Cons.prems(1)] obtain v
    where v: "getReduceInitVal (ts ! length acc) (hd r) = Done (Some v)"
      and rest: "collectInitVals ts rs (acc @ [v]) = Done (Some out)"
      and single: "hasSingleElement r"
    by blast
  show ?case
  proof (cases "region = r")
    case True
    from single have r: "r = [hd r]" by (simp add: hasSingleElement_def list1)
    from getReduceInitVal_Done [OF v] obtain operation ret
      where blk: "snd (hd r) = [operation, ret]"
        and n: "getNeutralElement operation = Done (Some v)" by blast
    from collectInitVals_prefix [OF rest]
    have l: "length acc < length out" and "take (length acc + 1) out = acc @ [v]" by simp_all
    then have "out ! length acc = (acc @ [v]) ! length acc"
      by (metis less_add_one nth_take)
    then have "out ! length acc = v" by simp
    with n l have "length acc < length out \<and>
        getNeutralElement operation = Done (Some (out ! length acc))" by simp
    moreover have "r = [(fst (hd r), [operation, ret])]"
      by (subst r) (simp add: blk [symmetric])
    ultimately show ?thesis using True by blast
  next
    case False
    with Cons.prems(2) have "region \<in> set rs" by simp
    from Cons.IH [OF rest this] show ?thesis .
  qed
qed

lemma getReduceType_None_iff:
  "getReduceType type mc = None \<longleftrightarrow> \<not> ((\<exists>w. type = IntegerType w) \<or> (\<exists>w. type = FloatType w))"
  by (cases type) (simp_all add: getReduceType_def isIntOrFloat_def)

lemma getIntegerAttr_Some_iff:
  "getIntegerAttr operation name = Some mc \<longleftrightarrow>
     (\<exists>t. getAttr operation name = Some (IntegerAttr t mc))"
  by (auto simp: getIntegerAttr_def split: option.splits attr.splits)

lemma getParentOfType_None_iff:
  "getParentOfType ancestors name = None \<longleftrightarrow> (\<forall>a \<in> set ancestors. opName a \<noteq> name)"
  by (auto simp: getParentOfType_def find_None_iff)

lemma matchAndRewrite_cases:
  "ParallelToTbb_matchAndRewrite parent ancestors p = (Failure, None) \<or>
   ParallelToTbb_matchAndRewrite parent ancestors p = (Aborted, None) \<or>
   (\<exists>ir. ParallelToTbb_matchAndRewrite parent ancestors p = (Success, Some ir))"
  by (simp add: ParallelToTbb_matchAndRewrite_def Let_def split: option.splits run.splits)

lemma matchAndRewrite_Success:
  assumes "ParallelToTbb_matchAndRewrite parent ancestors p = (Success, Some ir)"
  shows "eligibleLoop parent ancestors p"
proof -
  from assms have nm: "opName parent \<noteq> NumbaParallel"
    and par: "isInsideParalleRegion parent \<or>
              getParentOfType (parent # ancestors) ScfParallel = None"
    by (auto simp: ParallelToTbb_matchAndRewrite_def Let_def split: if_splits)
  from assms nm par obtain func where
    f: "getParentOfType (parent # ancestors) FuncFunc = Some func"
    by (cases "getParentOfType (parent # ancestors) FuncFunc")
       (auto simp: ParallelToTbb_matchAndRewrite_def Let_def)
  from assms nm par f obtain mc where
    mc: "getIntegerAttr func getMaxConcurrencyName = Some mc" and big: "1 < mc"
    by (cases "getIntegerAttr func getMaxConcurrencyName")
       (auto simp: ParallelToTbb_matchAndRewrite_def Let_def split: if_splits)
  from mc obtain t where t: "getAttr func ''numba.max_concurrency'' = Some (IntegerAttr t mc)"
    using getIntegerAttr_Some_iff [of func getMaxConcurrencyName mc]
    by (auto simp: getMaxConcurrencyName_def)
  from assms nm par f mc big
  have types: "\<not> (\<exists>type \<in> set (getResultTypes p). getReduceType type mc = None)"
    by (auto simp: ParallelToTbb_matchAndRewrite_def Let_def split: if_splits)
  from accepted_ir(7) [OF assms] obtain neutral
    where coll: "collectInitVals (getResultTypes p) (reductions p) [] = Done (Some neutral)"
      and hold: "assertionsHold p neutral" by blast
  from hold have nonnull: "\<forall>i < length neutral. neutral ! i \<noteq> None"
    by (simp add: assertionsHold_def list_all_length)
  have regions: "\<exists>args operation ret neutral. region = [(args, [operation, ret])] \<and>
           getNeutralElement operation = Done (Some (Some neutral))"
    if "region \<in> set (reductions p)" for region
  proof -
    from collectInitVals_regions [OF coll that] obtain args operation ret i
      where "region = [(args, [operation, ret])]" "i < length neutral"
        "getNeutralElement operation = Done (Some (neutral ! i))" by blast
    moreover from this nonnull obtain n where "neutral ! i = Some n" by auto
    ultimately show ?thesis by auto
  qed
  from par have "(opName parent = NumbaEnvironmentRegion \<and>
       getAttr parent ''environment'' = Some ParallelAttr) \<or>
      (\<forall>a \<in> set (parent # ancestors). opName a \<noteq> ScfParallel)"
    unfolding isInsideParalleRegion_def getParentOfType_None_iff .
  moreover from types have "\<forall>type \<in> set (getResultTypes p).
        (\<exists>w. type = IntegerType w) \<or> (\<exists>w. type = FloatType w)"
    by (simp add: getReduceType_None_iff)
  ultimately show ?thesis
    unfolding eligibleLoop_def using nm f t big regions by blast
qed

lemma matchAndRewrite_ineligible:
  assumes "\<not> eligibleLoop parent ancestors p"
  shows "ParallelToTbb_matchAndRewrite parent ancestors p = (Failure, None) \<or>
         ParallelToTbb_matchAndRewrite parent ancestors p = (Aborted, None)"
  using assms matchAndRewrite_cases [of parent ancestors p] matchAndRewrite_Success
  by blast

lemma sumLoop_neutral:
  "collectInitVals (getResultTypes sumLoop) (reductions sumLoop) [] =
     Done (Some [Some (IntegerAttr i64 0)])"
  by (simp add: sumLoop_def sumRegion_def getReduceInitVal_def hasSingleElement_def
        without_terminator_def getNeutralElement_def neutralElement_def getZeroAttr_def
        getResultTypes_def bindRun_def i64_def)

lemma sumLoop_mapped: "\<forall>region \<in> set (reductions sumLoop). returnIsMapped (hd region)"
  by (simp add: sumLoop_def sumRegion_def returnIsMapped_def getTerminator_def
        without_terminator_def)

lemma sumLoop_assertions: "assertionsHold sumLoop [Some (IntegerAttr i64 0)]"
  using sumLoop_mapped
  by (simp add: assertionsHold_def sumLoop_def sumRegion_def flip: Ball_set)

lemma sumFunc_found: "getParentOfType [sumFunc, moduleOp] FuncFunc = Some sumFunc"
  by (simp add: getParentOfType_def sumFunc_def)

lemma sumFunc_no_parallel: "getParentOfType [sumFunc, moduleOp] ScfParallel = None"
  by (simp add: getParentOfType_def sumFunc_def moduleOp_def)

lemma sumFunc_mc: "getIntegerAttr sumFunc getMaxConcurrencyName = Some 4"
  by (simp add: getIntegerAttr_def getAttr_def sumFunc_def getMaxConcurrencyName_def)

lemma sumLoop_types:
  "\<not> (\<exists>type \<in> set (getResultTypes sumLoop). getReduceType type 4 = None)"
  by (simp add: sumLoop_def getResultTypes_def getReduceType_def isIntOrFloat_def i64_def)

lemma sumLoop_result:
  "ParallelToTbb_matchAndRewrite sumFunc [moduleOp] sumLoop =
     (Success,
      Some \<lparr>reduceVars = [MemRefType [4] i64 IdentityLayout 0],
            reduceLowerBound = 0, reduceUpperBound = 4, reduceStep = 1,
            initStores = [IntegerAttr i64 0],
            parallelLowerBound = [Val 1 IndexType], parallelUpperBound = [Val 2 IndexType],
            parallelStep = [Val 3 IndexType], clonedLoop = sumLoop,
            combineInitVals = [Val 4 i64], combineRegions = [sumRegion]\<rparr>)"
proof -
  have name: "opName sumFunc = FuncFunc" by (simp add: sumFunc_def)
  have fields: "lowerBound sumLoop = [Val 1 IndexType]" "upperBound sumLoop = [Val 2 IndexType]"
    "step sumLoop = [Val 3 IndexType]" "initVals sumLoop = [Val 4 i64]"
    "reductions sumLoop = [sumRegion]"
    "map (\<lambda>type. the (getReduceType type 4)) (getResultTypes sumLoop) =
       [MemRefType [4] i64 IdentityLayout 0]"
    by (simp_all add: sumLoop_def getResultTypes_def getReduceType_def isIntOrFloat_def i64_def)
  show ?thesis
    unfolding ParallelToTbb_matchAndRewrite_def Let_def
    by (simp only: name sumFunc_found sumFunc_no_parallel sumFunc_mc sumLoop_neutral
          sumLoop_types sumLoop_assertions fields(1-4,6) opname.distinct option.case run.case
          if_False if_True simp_thms)
       (simp add: fields(5))
qed

lemma sumIr_eq:
  "sumIr = \<lparr>reduceVars = [MemRefType [4] i64 IdentityLayout 0],
            reduceLowerBound = 0, reduceUpperBound = 4, reduceStep = 1,
            initStores = [IntegerAttr i64 0],
            parallelLowerBound = [Val 1 IndexType], parallelUpperBound = [Val 2 IndexType],
            parallelStep = [Val 3 IndexType], clonedLoop = sumLoop,
            combineInitVals = [Val 4 i64], combineRegions = [sumRegion]\<rparr>"
  by (simp add: sumIr_def sumLoop_result)

lemma sumLoop_accepted:
  "ParallelToTbb_matchAndRewrite sumFunc [moduleOp] sumLoop = (Success, Some sumIr)"
  by (simp only: sumIr_eq sumLoop_result)




lemma indexLoop_ineligible: "\<not> eligibleLoop sumFunc [moduleOp] indexLoop"
  by (simp add: eligibleLoop_def indexLoop_def indexRegion_def getNeutralElement_def
        neutralElement_def)

text \<open>
  The rewriter rewrites only an eligible loop, and a loop it declines is left as it was;
  on a loop that is not eligible it declines or an assertion of the compiler fails.
\<close>

lemma ParallelToTbb_declines_or_aborts:
  "(fst (ParallelToTbb_matchAndRewrite parent ancestors p) = Success \<longrightarrow>
      eligibleLoop parent ancestors p) \<and>
   (\<not> eligibleLoop parent ancestors p \<longrightarrow>
      ParallelToTbb_matchAndRewrite parent ancestors p = (Failure, None) \<or>
      ParallelToTbb_matchAndRewrite parent ancestors p = (Aborted, None)) \<and>
   (fst (ParallelToTbb_matchAndRewrite parent ancestors p) \<noteq> Success \<longrightarrow>
      snd (ParallelToTbb_matchAndRewrite parent ancestors p) = None)"
  using matchAndRewrite_cases [of parent ancestors p] matchAndRewrite_Success [of parent ancestors p]
  by auto


section \<open>Parallel-Loop Rewriter: the claims on the rewritten loop\<close>

lemma sum_words: "foldl (+) a (map of_nat xs) = (a :: 'a::len word) + of_nat (sum_list xs)"
  by (induction xs arbitrary: a) (simp_all add: add.assoc)

lemma sum_0_100: "sum_list [0 ..< 100] = (4950 :: nat)"
  by (simp add: sum_list_upt Sum_Ico_nat)

lemma sumRegion_combines: "combinesWith (reductions sumLoop ! 0) AddI (IntegerType 64)"
  by (simp add: combinesWith_def sumLoop_def sumRegion_def i64_def)

lemma kindOp_AddI: "kindOp AddI = ((+) :: 'a::len word \<Rightarrow> 'a word \<Rightarrow> 'a word)"
  by (intro ext) (simp add: kindOp_def applyArith_def)

lemma integerKind_AddI: "integerKind AddI"
  by (simp add: integerKind_def)

lemma quarters_cover: "concat (map snd quarters) = [0 ..< 100]"
proof -
  have a: "[0 ..< 25] @ [25 ..< 50] = [0 ..< (50::nat)]"
    using upt_add_eq_append [of 0 25 25] by simp
  have b: "[0 ..< 50] @ [50 ..< 75] = [0 ..< (75::nat)]"
    using upt_add_eq_append [of 0 50 25] by simp
  have c: "[0 ..< 75] @ [75 ..< 100] = [0 ..< (100::nat)]"
    using upt_add_eq_append [of 0 75 25] by simp
  have "concat (map snd quarters) = (([0 ..< 25] @ [25 ..< 50]) @ [50 ..< 75]) @ [75 ..< 100]"
    by (simp add: quarters_def)
  also have "\<dots> = [0 ..< 100]" by (simp only: a b c)
  finally show ?thesis .
qed

text \<open>
  C1, amended.  For every loop the Parallel-Loop Rewriter accepts and every reduction of it
  whose result is an integer and whose region combines its two block arguments with one
  integer \<open>arith\<close> operation that has a neutral element and returns the result of that
  operation: whatever the contents of the buffer that the pattern allocates, and however the
  runtime cuts the iteration space into runs of the parallel body (thread indices below
  \<open>maxConcurrency\<close>, the slices together covering every point once), the rewritten program
  (the allocated buffer of \<open>maxConcurrency\<close> slots, initialisation loop, parallel body,
  combining loop over the thread slots \<open>0..maxConcurrency-1\<close> in ascending order) yields the
  value of the sequential accumulation, on machine words of the width of the type.  In
  particular the loop over \<open>[0, 100)\<close> with \<open>maxConcurrency = 4\<close> and one sum reduction from
  \<open>0\<close> yields \<open>4950\<close>.
\<close>

theorem rewritten_loop_matches_sequential:
  fixes outer :: "nat \<Rightarrow> 'a::len word"
  shows
  "(ParallelToTbb_matchAndRewrite parent ancestors p = (Success, Some ir) \<and>
    i < length (reductions p) \<and> getResultTypes p ! i = IntegerType LENGTH('a) \<and>
    integerKind k \<and> combinesWith (reductions p ! i) k (IntegerType LENGTH('a)) \<and>
    (\<forall>call \<in> set calls. int (fst call) < reduceUpperBound ir) \<and>
    mset (concat (map snd calls)) = mset iters \<longrightarrow>
      rewrittenLoop ir outer operand uninit calls i = sequentialLoop p outer operand iters i \<and>
      sequentialLoop p outer operand iters i \<noteq> None) \<and>
   ((\<forall>call \<in> set calls'. fst call < 4) \<and>
    mset (concat (map snd calls')) = mset [0 ..< 100] \<longrightarrow>
      rewrittenLoop sumIr zeroValues inductionValue uninit' calls' 0 = Some 4950)"
proof (intro conjI impI)
  assume a: "ParallelToTbb_matchAndRewrite parent ancestors p = (Success, Some ir) \<and>
    i < length (reductions p) \<and> getResultTypes p ! i = IntegerType LENGTH('a) \<and>
    integerKind k \<and> combinesWith (reductions p ! i) k (IntegerType LENGTH('a)) \<and>
    (\<forall>call \<in> set calls. int (fst call) < reduceUpperBound ir) \<and>
    mset (concat (map snd calls)) = mset iters"
  then have r: "rewrittenLoop ir outer operand uninit calls i =
           Some (foldl (kindOp k) (outer (vid (initVals p ! i))) (map (operand i) iters))"
    and s: "sequentialLoop p outer operand iters i =
           Some (foldl (kindOp k) (outer (vid (initVals p ! i))) (map (operand i) iters))"
    by (auto intro: rewritten_is_sequential)
  from r s show "rewrittenLoop ir outer operand uninit calls i =
      sequentialLoop p outer operand iters i" by simp
  from s show "sequentialLoop p outer operand iters i \<noteq> None" by simp
next
  assume b: "(\<forall>call \<in> set calls'. fst call < 4) \<and>
    mset (concat (map snd calls')) = mset [0 ..< 100]"
  have ub: "reduceUpperBound sumIr = 4" by (simp add: sumIr_eq)
  have "rewrittenLoop sumIr zeroValues inductionValue uninit' calls' 0 =
      Some (foldl (kindOp AddI) (zeroValues (vid (initVals sumLoop ! 0)))
              (map (inductionValue 0) [0 ..< 100]))"
    by (rule rewritten_is_sequential(1) [OF sumLoop_accepted _ _ integerKind_AddI])
       (use b sumRegion_combines in \<open>simp_all add: ub sumLoop_def getResultTypes_def i64_def\<close>)
  also have "inductionValue 0 = of_nat" by (intro ext) (simp add: inductionValue_def)
  also have "zeroValues (vid (initVals sumLoop ! 0)) = 0" by (simp add: zeroValues_def)
  also have "foldl (kindOp AddI) (0 :: 64 word) (map of_nat [0 ..< 100]) = 4950"
    by (simp only: kindOp_AddI sum_words sum_0_100) simp
  finally show "rewrittenLoop sumIr zeroValues inductionValue uninit' calls' 0 = Some 4950" .
qed

theorem rewritten_loop_matches_sequential_witness:
  "ParallelToTbb_matchAndRewrite sumFunc [moduleOp] sumLoop = (Success, Some sumIr) \<and>
   0 < length (reductions sumLoop) \<and> getResultTypes sumLoop ! 0 = IntegerType LENGTH(64) \<and>
   integerKind AddI \<and> combinesWith (reductions sumLoop ! 0) AddI (IntegerType LENGTH(64)) \<and>
   list_all (\<lambda>call. int (fst call) < reduceUpperBound sumIr) quarters \<and>
   mset (concat (map snd quarters)) = mset [0 ..< 100] \<and>
   list_all (\<lambda>call. fst call < 4) quarters \<and>
   rewrittenLoop sumIr zeroValues inductionValue staleMemory quarters 0 =
     sequentialLoop sumLoop zeroValues inductionValue [0 ..< 100] 0 \<and>
   rewrittenLoop sumIr zeroValues inductionValue staleMemory quarters 0 = Some 4950"
proof -
  have h: "0 < length (reductions sumLoop)" "reduceUpperBound sumIr = 4"
    "\<forall>call \<in> set quarters. fst call < 4"
    "getResultTypes sumLoop ! 0 = IntegerType LENGTH(64)"
    by (simp_all add: sumLoop_def sumIr_eq quarters_def getResultTypes_def i64_def)
  from rewritten_loop_matches_sequential [of sumFunc "[moduleOp]" sumLoop sumIr 0 AddI
        quarters "[0 ..< 100]" zeroValues inductionValue staleMemory quarters staleMemory]
    sumLoop_accepted integerKind_AddI sumRegion_combines h
  have a: "rewrittenLoop sumIr zeroValues inductionValue staleMemory quarters 0 =
      sequentialLoop sumLoop zeroValues inductionValue [0 ..< 100] 0"
    and b: "rewrittenLoop sumIr zeroValues inductionValue staleMemory quarters 0 = Some 4950"
    by (auto simp: quarters_cover)
  from a b sumLoop_accepted integerKind_AddI sumRegion_combines h show ?thesis
    by (simp add: quarters_cover flip: Ball_set)
qed

lemma doublingLoop_result:
  "ParallelToTbb_matchAndRewrite twoThreadFunc [moduleOp] doublingLoop =
     (Success,
      Some \<lparr>reduceVars = [MemRefType [2] i64 IdentityLayout 0],
            reduceLowerBound = 0, reduceUpperBound = 2, reduceStep = 1,
            initStores = [IntegerAttr i64 0],
            parallelLowerBound = [Val 1 IndexType], parallelUpperBound = [Val 2 IndexType],
            parallelStep = [Val 3 IndexType], clonedLoop = doublingLoop,
            combineInitVals = [Val 4 i64], combineRegions = [doublingRegion]\<rparr>)"
proof -
  have name: "opName twoThreadFunc = FuncFunc" by (simp add: twoThreadFunc_def)
  have found: "getParentOfType [twoThreadFunc, moduleOp] FuncFunc = Some twoThreadFunc"
    "getParentOfType [twoThreadFunc, moduleOp] ScfParallel = None"
    "getIntegerAttr twoThreadFunc getMaxConcurrencyName = Some 2"
    by (simp_all add: getParentOfType_def twoThreadFunc_def moduleOp_def getIntegerAttr_def
          getAttr_def getMaxConcurrencyName_def)
  have neutral:
    "collectInitVals (getResultTypes doublingLoop) (reductions doublingLoop) [] =
       Done (Some [Some (IntegerAttr i64 0)])"
    by (simp add: doublingLoop_def sumLoop_def doublingRegion_def getReduceInitVal_def
          hasSingleElement_def without_terminator_def getNeutralElement_def neutralElement_def
          getZeroAttr_def getResultTypes_def bindRun_def i64_def)
  have types: "\<not> (\<exists>type \<in> set (getResultTypes doublingLoop). getReduceType type 2 = None)"
    by (simp add: doublingLoop_def sumLoop_def getResultTypes_def getReduceType_def
          isIntOrFloat_def i64_def)
  have m: "assertionsHold doublingLoop [Some (IntegerAttr i64 0)]"
    by (simp add: assertionsHold_def doublingLoop_def sumLoop_def doublingRegion_def
          returnIsMapped_def getTerminator_def without_terminator_def)
  have fields: "lowerBound doublingLoop = [Val 1 IndexType]"
    "upperBound doublingLoop = [Val 2 IndexType]"
    "step doublingLoop = [Val 3 IndexType]" "initVals doublingLoop = [Val 4 i64]"
    "reductions doublingLoop = [doublingRegion]"
    "map (\<lambda>type. the (getReduceType type 2)) (getResultTypes doublingLoop) =
       [MemRefType [2] i64 IdentityLayout 0]"
    by (simp_all add: doublingLoop_def sumLoop_def getResultTypes_def getReduceType_def
          isIntOrFloat_def i64_def)
  show ?thesis
    unfolding ParallelToTbb_matchAndRewrite_def Let_def
    by (simp only: name found neutral types m fields(1-4,6) opname.distinct option.case
          run.case if_False if_True simp_thms)
       (simp add: fields(5))
qed

lemma doublingRegion_eval:
  "evalReduction doublingRegion zeroValues a b = Some (b + b)"
  by (simp add: evalReduction_def doublingRegion_def applyArith_def)

text \<open>
  C1, as stated for every accepted loop, fails: the pattern accepts a loop whose reduction
  block adds its second argument to itself (one \<open>arith.addi\<close>, which has a neutral element);
  over the points \<open>0, 1, 2, 3\<close> with two threads the sequential loop yields \<open>6\<close> and the
  rewritten program \<open>12\<close>.
\<close>

theorem doubling_loop_counterexample:
  "ParallelToTbb_matchAndRewrite twoThreadFunc [moduleOp] doublingLoop = (Success, Some doublingIr) \<and>
   rewrittenLoop doublingIr zeroValues inductionValue zeroMemory [(0, [0, 1]), (1, [2, 3])] 0 = Some 12 \<and>
   sequentialLoop doublingLoop zeroValues inductionValue [0, 1, 2, 3] 0 = Some 6"
proof -
  have ir: "doublingIr =
     \<lparr>reduceVars = [MemRefType [2] i64 IdentityLayout 0],
      reduceLowerBound = 0, reduceUpperBound = 2, reduceStep = 1,
      initStores = [IntegerAttr i64 0],
      parallelLowerBound = [Val 1 IndexType], parallelUpperBound = [Val 2 IndexType],
      parallelStep = [Val 3 IndexType], clonedLoop = doublingLoop,
      combineInitVals = [Val 4 i64], combineRegions = [doublingRegion]\<rparr>"
    by (simp add: doublingIr_def doublingLoop_result)
  have red: "reductions doublingLoop = [doublingRegion]" "initVals doublingLoop = [Val 4 i64]"
    by (simp_all add: doublingLoop_def sumLoop_def)
  have idx: "scfForIndices 0 2 1 = [0, 1]"
    by (simp add: scfForIndices_def upt_rec)
  have seq: "sequentialLoop doublingLoop zeroValues inductionValue [0, 1, 2, 3] 0 = Some 6"
    by (simp add: sequentialLoop_def red doublingRegion_eval inductionValue_def)
  have rw: "rewrittenLoop doublingIr zeroValues inductionValue zeroMemory [(0, [0, 1]), (1, [2, 3])] 0 =
      Some 12"
    by (simp add: rewrittenLoop_def allocaBuffer_def initLoop_def parallelBody_def
          combineLoop_def ir idx red attrWord_def storeAt_def loadAt_def doublingRegion_eval
          inductionValue_def zeroValues_def zeroMemory_def i64_def upt_rec)
  show ?thesis using doublingLoop_result seq rw by (simp add: ir)
qed

section \<open>Escape analysis: the result escapes exactly through a disallowed use\<close>

text \<open>
  C5.  The escape analysis reports that the result escapes if and only if some use of it
  is neither a load, nor a store, nor a deallocation (accepted only on the original
  allocation, \<open>original = True\<close>, never on a derived view), nor a view-like operation
  whose own result, recursively analysed as a derived view, does not escape.
\<close>

theorem canResultEscape_iff:
  "canResultEscape users original \<longleftrightarrow>
     (\<exists>u \<in> set users.
        \<not> (u = LoadOp \<or> u = StoreOp \<or> (u = DeallocOp \<and> original) \<or>
           (\<exists>viewUsers. u = ViewLikeOp viewUsers \<and> \<not> canResultEscape viewUsers False)))"
proof (induction users)
  case Nil
  show ?case by simp
next
  case (Cons u users)
  show ?case
    using Cons.IH by (cases u; cases original) simp_all
qed

theorem canResultEscape_iff_witness:
  "canResultEscape [LoadOp, ViewLikeOp [StoreOp, DeallocOp], StoreOp] True \<and>
   (\<exists>u \<in> set [LoadOp, ViewLikeOp [StoreOp, DeallocOp], StoreOp].
        \<not> (u = LoadOp \<or> u = StoreOp \<or> (u = DeallocOp \<and> True) \<or>
           (\<exists>viewUsers. u = ViewLikeOp viewUsers \<and> \<not> canResultEscape viewUsers False)))"
  using canResultEscape_iff [of "[LoadOp, ViewLikeOp [StoreOp, DeallocOp], StoreOp]" True]
  by simp

subsection \<open>Conversion thunks are created once\<close>






































subsection \<open>The signature and the returns of a public function\<close>













lemma sigInv_update [simp]:
  "sigInv (st\<lparr>insertion := b\<rparr>) rest = sigInv st rest"
  "sigInv (st\<lparr>parentModule := m\<rparr>) rest = sigInv st rest"
  by (simp_all add: sigInv_def)








lemma created_create [simp]:
  "created (snd (create n os t as b)) = created b @ [Op n os [Val (nextId b) t] as []]"
  "fst (create n os t as b) = Val (nextId b) t"
  by (simp_all add: create_def)

lemma created_create0 [simp]:
  "created (create0 n os as b) = created b @ [Op n os [] as []]"
  by (simp add: create0_def)
















lemma headInv_update [simp]:
  "headInv (st\<lparr>insertion := b\<rparr>) v = headInv st v"
  "headInv (st\<lparr>parentModule := m\<rparr>) v = headInv st v"
  by (simp_all add: headInv_def)





















section \<open>Execution Engine: which failures are error values\<close>

lemma linkRuntime_no_error: "linkRuntime w dylib \<noteq> Returned (Inl err)"
  by (simp add: linkRuntime_def split: sum.splits)

lemma linkRuntime_003_no_error: "linkRuntime_003 w dylib \<noteq> Returned (Inl err)"
  by (simp add: linkRuntime_003_def split: sum.splits)

lemma loadModule_error:
  assumes "fst (loadModule w c m) = Returned (Inl err)"
  shows "\<exists>msg. err = JITError msg \<and>
           createJITDylib w (fst (uniqueName (jitDylibNumbers w) c)) = Inl msg"
proof (cases m)
  case None
  with assms show ?thesis by (simp add: loadModule_def)
next
  case (Some m')
  show ?thesis
  proof (cases "translateModuleToLLVMIR w m'")
    case None
    with assms Some show ?thesis by (simp add: loadModule_def)
  next
    case (Some lm)
    obtain number counter where u: "uniqueName (jitDylibNumbers w) c = (number, counter)"
      by (cases "uniqueName (jitDylibNumbers w) c")
    show ?thesis
    proof (cases "createJITDylib w number")
      case (Inl msg)
      with assms \<open>m = Some m'\<close> Some u show ?thesis
        by (simp add: loadModule_def Let_def split: if_splits)
    next
      case (Inr dylib)
      with assms \<open>m = Some m'\<close> Some u show ?thesis
        by (simp add: loadModule_def Let_def linkRuntime_no_error split: if_splits)
    qed
  qed
qed

lemma loadModule_003_error:
  assumes "fst (loadModule_003 w c m) = Returned (Inl err)"
  shows "\<exists>msg. err = JITError msg \<and>
           createJITDylib w (fst (uniqueName (jitDylibNumbers w) c)) = Inl msg"
proof (cases m)
  case None
  with assms show ?thesis by (simp add: loadModule_003_def)
next
  case (Some m')
  show ?thesis
  proof (cases "translateModuleToLLVMIR w m'")
    case None
    with assms Some show ?thesis by (simp add: loadModule_003_def)
  next
    case (Some lm)
    obtain number counter where u: "uniqueName (jitDylibNumbers w) c = (number, counter)"
      by (cases "uniqueName (jitDylibNumbers w) c")
    show ?thesis
    proof (cases "createJITDylib w number")
      case (Inl msg)
      with assms \<open>m = Some m'\<close> Some u show ?thesis
        by (simp add: loadModule_003_def Let_def split: if_splits)
    next
      case (Inr dylib)
      with assms \<open>m = Some m'\<close> Some u show ?thesis
        by (simp add: loadModule_003_def Let_def linkRuntime_003_no_error split: if_splits)
    qed
  qed
qed

lemma loadModule_createJITDylib_fails:
  assumes "translateModuleToLLVMIR w m' = Some lm"
    and "case transformer w of None \<Rightarrow> True
         | Some t \<Rightarrow> t (lm\<lparr>codeModel := CodeModelLarge, picLevel := BigPIC,
               pieLevel := LargePIE, directAccessExternalData := True\<rparr>) = None"
    and "createJITDylib w (fst (uniqueName (jitDylibNumbers w) c)) = Inl msg"
  shows "fst (loadModule w c (Some m')) = Returned (Inl (JITError msg))"
proof -
  obtain number counter where u: "uniqueName (jitDylibNumbers w) c = (number, counter)"
    by (cases "uniqueName (jitDylibNumbers w) c")
  with assms show ?thesis
    by (simp add: loadModule_def Let_def split: option.splits)
qed

lemma uniqueName_example: "uniqueName [0, Suc 0] 0 = (2, 3)"
  by (simp add: uniqueName.simps)

text \<open>
  C10.  In \<open>loadModule\<close> (both copies of the file) the translated module pointer is
  dereferenced before it is tested for null: the branch returning the error
  "could not convert to LLVM IR" is never taken, whatever the input, and a translation that
  yields a null module ends in the dereference of a null pointer, not in that error value.
\<close>

theorem loadModule_null_check_unreachable:
  "fst (loadModule w c m) \<noteq> Returned (Inl (StringError ''could not convert to LLVM IR'')) \<and>
   fst (loadModule_003 w c m) \<noteq> Returned (Inl (StringError ''could not convert to LLVM IR'')) \<and>
   (translateModuleToLLVMIR w m' = None \<longrightarrow>
      loadModule w c (Some m') = (NullDereference, c) \<and>
      loadModule_003 w c (Some m') = (NullDereference, c))"
proof -
  have "fst (loadModule w c m) \<noteq> Returned (Inl (StringError ''could not convert to LLVM IR''))"
    using loadModule_error [of w c m] by blast
  moreover
  have "fst (loadModule_003 w c m) \<noteq> Returned (Inl (StringError ''could not convert to LLVM IR''))"
    using loadModule_003_error [of w c m] by blast
  ultimately show ?thesis
    by (simp add: loadModule_def loadModule_003_def)
qed

theorem loadModule_null_check_unreachable_witness:
  "translateModuleToLLVMIR hostWithoutTranslation () = None \<and>
   loadModule hostWithoutTranslation 0 (Some ()) = (NullDereference, 0) \<and>
   loadModule_003 hostWithoutTranslation 0 (Some ()) = (NullDereference, 0)"
  using loadModule_null_check_unreachable [of hostWithoutTranslation 0 "Some ()" "()"]
  by (simp add: hostWithoutTranslation_def hostWithoutKitcuda_def)

text \<open>
  C9, as stated, fails: on a host where \<open>libkitrt.so\<close> opens but does not export a
  function asked for, the failed symbol resolution ends the process in
  \<open>llvm::report_fatal_error\<close>; no error value is returned.
\<close>

theorem loadModule_fatal_counterexample:
  "dlsym hostWithoutKitcuda (dlopen hostWithoutKitcuda libkitrt) ''__cudaRegisterFatBinary'' = 0 \<and>
   fst (loadModule hostWithoutKitcuda 0 (Some ())) = FatalError kitcudaFatal"
  by (simp add: loadModule_def hostWithoutKitcuda_def emptyModule_def linkRuntime_def
        addRuntimeLib_def kitcudaFns_def uniqueName_example)

lemma mapOutcome_returns:
  assumes "\<forall>x \<in> set xs. \<exists>y. f x = Returned (Inr y)"
  shows "\<exists>ys. mapOutcome f xs = Returned (Inr ys)"
  using assms
proof (induction xs)
  case Nil
  show ?case by simp
next
  case (Cons x xs)
  then obtain y ys where "f x = Returned (Inr y)" "mapOutcome f xs = Returned (Inr ys)"
    by auto
  then show ?case by (simp add: bindOutcome_def)
qed

lemma replaceCall_returns:
  assumes "env ''NM_TAPIRTARGET'' \<noteq> None"
    and "case i of CallInst callee nargs \<Rightarrow>
           callee \<noteq> None \<and> (callee \<noteq> Some ''NRT_MemInfo_alloc_safe_aligned'' \<or> nargs = 2)
         | OtherInst \<Rightarrow> True"
  shows "\<exists>i'. replaceCall env i = Returned (Inr i')"
  using assms
  by (cases i) (auto simp: replaceCall_def isOpenCilk_def bindOutcome_def)

lemma replaceNRTAllocPass_returns:
  assumes env: "env ''NM_TAPIRTARGET'' \<noteq> None"
    and calls: "list_all (\<lambda>i. case i of
                   CallInst callee nargs \<Rightarrow>
                     callee \<noteq> None \<and>
                     (callee \<noteq> Some ''NRT_MemInfo_alloc_safe_aligned'' \<or> nargs = 2)
                 | OtherInst \<Rightarrow> True) (instructions f)"
  shows "\<exists>f'. replaceNRTAllocPass env f = Returned (Inr f')"
proof -
  from calls have has: "list_all hasCalledFunction (instructions f)"
    by (auto simp: list_all_iff hasCalledFunction_def split: instruction.splits)
  have "\<exists>i'. replaceCall env i = Returned (Inr i')" if "i \<in> set (instructions f)" for i
  proof (rule replaceCall_returns)
    show "env ''NM_TAPIRTARGET'' \<noteq> None" by (rule env)
    from calls that show "case i of CallInst callee nargs \<Rightarrow>
           callee \<noteq> None \<and> (callee \<noteq> Some ''NRT_MemInfo_alloc_safe_aligned'' \<or> nargs = 2)
         | OtherInst \<Rightarrow> True"
      by (simp add: list_all_iff)
  qed
  then have "\<forall>i \<in> set (instructions f). \<exists>i'. replaceCall env i = Returned (Inr i')"
    by blast
  from mapOutcome_returns [OF this] obtain replaced
    where "mapOutcome (replaceCall env) (instructions f) = Returned (Inr replaced)" by blast
  with has show ?thesis by (simp add: replaceNRTAllocPass_def bindOutcome_def)
qed

lemma runOptimizationPasses_returns:
  assumes env: "getenv s ''NM_TAPIRTARGET'' = Some target"
    and calls: "callsResolved (firstPipeline s (target = ''opencilk'') M)"
  shows "\<exists>M'. runOptimizationPasses s M = Returned (Inr M')"
proof -
  from env have e: "getenv s ''NM_TAPIRTARGET'' \<noteq> None" by simp
  have "\<exists>f'. replaceNRTAllocPass (getenv s) f = Returned (Inr f')"
    if "f \<in> set (moduleFunctions (firstPipeline s (target = ''opencilk'') M))" for f
  proof (rule replaceNRTAllocPass_returns)
    show "getenv s ''NM_TAPIRTARGET'' \<noteq> None" by (rule e)
    from calls that show "list_all (\<lambda>i. case i of
                   CallInst callee nargs \<Rightarrow>
                     callee \<noteq> None \<and>
                     (callee \<noteq> Some ''NRT_MemInfo_alloc_safe_aligned'' \<or> nargs = 2)
                 | OtherInst \<Rightarrow> True) (instructions f)"
      by (simp add: callsResolved_def list_all_iff)
  qed
  then have "\<forall>f \<in> set (moduleFunctions (firstPipeline s (target = ''opencilk'') M)).
      \<exists>f'. replaceNRTAllocPass (getenv s) f = Returned (Inr f')"
    by blast
  from mapOutcome_returns [OF this] obtain replaced
    where "mapOutcome (replaceNRTAllocPass (getenv s))
             (moduleFunctions (firstPipeline s (target = ''opencilk'') M)) = Returned (Inr replaced)"
    by blast
  with env show ?thesis
    by (simp add: runOptimizationPasses_def isOpenCilk_def bindOutcome_def Let_def)
qed

lemma CustomCompiler_returns:
  assumes env: "getenv s ''NM_TAPIRTARGET'' = Some target"
    and calls: "\<forall>transformed.
        (case lateTransformer s of None \<Rightarrow> Inr M | Some t \<Rightarrow> t M) = Inr transformed \<longrightarrow>
          callsResolved (firstPipeline s (target = ''opencilk'') transformed)"
  shows "\<exists>compiled. CustomCompiler s M = Returned compiled"
proof (cases "case lateTransformer s of None \<Rightarrow> Inr M | Some t \<Rightarrow> t M")
  case (Inl err)
  then show ?thesis by (simp add: CustomCompiler_def)
next
  case (Inr transformed)
  with calls have "callsResolved (firstPipeline s (target = ''opencilk'') transformed)" by simp
  from runOptimizationPasses_returns [OF env this] obtain M'
    where "runOptimizationPasses s transformed = Returned (Inr M')" by blast
  with Inr show ?thesis
    by (simp add: CustomCompiler_def bindOutcome_def split: sum.splits)
qed

lemma LLJIT_lookup_returns:
  assumes "\<exists>compiled. CustomCompiler s M = Returned compiled"
    and "symbols s dylib name = NotCompiled M"
  shows "\<exists>res. fst (LLJIT_lookup s dylib name) = Returned res"
  using assms by (auto simp: LLJIT_lookup_def split: sum.splits)

lemma lookup_after_LLJIT:
  assumes "handle \<noteq> 0" and "fst (LLJIT_lookup s handle name) = Returned res"
  shows "\<exists>res'. fst (lookup s handle name) = Returned res'"
  using assms by (cases "LLJIT_lookup s handle name") (auto simp: lookup_def split: sum.splits)

lemma lookup_result:
  assumes "fst (lookup s handle name) = Returned res"
  shows "(\<exists>fptr. res = Inr fptr \<and> fptr \<noteq> 0) \<or> (\<exists>text. res = Inl (StringError text))"
  using assms
  by (cases "LLJIT_lookup s handle name")
     (auto simp: lookup_def split: if_splits outcome.splits sum.splits)

lemma lookup_nothing_to_compile:
  assumes "handle \<noteq> 0" and "\<forall>M. symbols s handle name \<noteq> NotCompiled M"
  shows "lookup s handle name =
           ((case symbols s handle name of
               Materialized fptr \<Rightarrow>
                 if fptr \<noteq> 0 then Returned (Inr fptr)
                 else Returned (Inl (StringError ''looked up function is null''))
             | NotFound err \<Rightarrow> Returned (Inl (StringError err))
             | NotCompiled M \<Rightarrow> NullDereference), s)"
  using assms
  by (cases "symbols s handle name") (simp_all add: lookup_def LLJIT_lookup_def errorMessage_def)

lemma cudaSession_compiles:
  "CustomCompiler cudaSession mainModule = Returned (Inr ())"
  by (simp add: CustomCompiler_def runOptimizationPasses_def replaceNRTAllocPass_def
        replaceCall_def hasCalledFunction_def isOpenCilk_def bindOutcome_def cudaSession_def
        mainModule_def emptyModule_def)

text \<open>
  In a process where \<open>NM_TAPIRTARGET\<close> is not set, the lookup of a symbol whose module is
  still to be compiled ends in \<open>strcmp\<close> on a null pointer.
\<close>

lemma lookup_without_target:
  "fst (lookup bareSession 5 ''main'') = NullDereference"
  by (simp add: lookup_def LLJIT_lookup_def CustomCompiler_def runOptimizationPasses_def
        isOpenCilk_def bindOutcome_def bareSession_def cudaSession_def)

text \<open>
  C9, amended.  \<open>lookup\<close>, whenever it returns, returns a non-null function pointer or a
  string error; for a symbol that is materialised or not found it does return, the string
  error also when the symbol resolves to null, and it leaves the JIT as it was; for a
  symbol whose module is still to be compiled it returns when \<open>NM_TAPIRTARGET\<close> is set and
  the module, after the late transformer and the first pipeline, has a called function for
  every call and two arguments for every call of the NRT allocator.  \<open>loadModule\<close> returns
  an error value only when the creation of the JITDylib fails, and it is then the JIT's own
  error; it does return it whenever the module translated, the transformer (if set)
  succeeded and that creation fails.
\<close>

theorem engine_failures_as_errors:
  "(fst (lookup s handle name) = Returned res \<longrightarrow>
      (\<exists>fptr. res = Inr fptr \<and> fptr \<noteq> 0) \<or> (\<exists>text. res = Inl (StringError text))) \<and>
   (handle \<noteq> 0 \<and> (\<forall>M. symbols s handle name \<noteq> NotCompiled M) \<longrightarrow>
      lookup s handle name =
        ((case symbols s handle name of
            Materialized fptr \<Rightarrow>
              if fptr \<noteq> 0 then Returned (Inr fptr)
              else Returned (Inl (StringError ''looked up function is null''))
          | NotFound text \<Rightarrow> Returned (Inl (StringError text))
          | NotCompiled M \<Rightarrow> NullDereference), s)) \<and>
   (handle \<noteq> 0 \<and> symbols s handle name = NotCompiled M \<and>
    getenv s ''NM_TAPIRTARGET'' = Some target \<and>
    (\<forall>transformed.
        (case lateTransformer s of None \<Rightarrow> Inr M | Some t \<Rightarrow> t M) = Inr transformed \<longrightarrow>
          callsResolved (firstPipeline s (target = ''opencilk'') transformed)) \<longrightarrow>
      (\<exists>res'. fst (lookup s handle name) = Returned res')) \<and>
   (fst (loadModule w c m) = Returned (Inl err) \<longrightarrow>
      (\<exists>msg. err = JITError msg \<and>
         createJITDylib w (fst (uniqueName (jitDylibNumbers w) c)) = Inl msg)) \<and>
   (translateModuleToLLVMIR w m' = Some lm \<and>
    (case transformer w of None \<Rightarrow> True
     | Some t \<Rightarrow> t (lm\<lparr>codeModel := CodeModelLarge, picLevel := BigPIC,
           pieLevel := LargePIE, directAccessExternalData := True\<rparr>) = None) \<and>
    createJITDylib w (fst (uniqueName (jitDylibNumbers w) c)) = Inl msg' \<longrightarrow>
      fst (loadModule w c (Some m')) = Returned (Inl (JITError msg')))"
proof -
  have compile: "\<exists>res'. fst (lookup s handle name) = Returned res'"
    if "handle \<noteq> 0" "symbols s handle name = NotCompiled M"
      "getenv s ''NM_TAPIRTARGET'' = Some target"
      "\<forall>transformed.
        (case lateTransformer s of None \<Rightarrow> Inr M | Some t \<Rightarrow> t M) = Inr transformed \<longrightarrow>
          callsResolved (firstPipeline s (target = ''opencilk'') transformed)"
  proof -
    from CustomCompiler_returns [OF that(3,4)]
    have "\<exists>compiled. CustomCompiler s M = Returned compiled" .
    from LLJIT_lookup_returns [OF this that(2)] obtain r
      where "fst (LLJIT_lookup s handle name) = Returned r" by blast
    from lookup_after_LLJIT [OF that(1) this] show ?thesis .
  qed
  show ?thesis
    using lookup_result [of s handle name res] lookup_nothing_to_compile [of handle s name]
      compile loadModule_error [of w c m err]
      loadModule_createJITDylib_fails [of w m' lm c msg']
    by blast
qed

theorem engine_failures_as_errors_witness:
  "(5::nat) \<noteq> 0 \<and> symbols cudaSession 5 ''null'' = Materialized 0 \<and>
   lookup cudaSession 5 ''null'' =
     (Returned (Inl (StringError ''looked up function is null'')), cudaSession) \<and>
   symbols cudaSession 5 ''main'' = NotCompiled mainModule \<and>
   getenv cudaSession ''NM_TAPIRTARGET'' = Some ''cuda'' \<and>
   lateTransformer cudaSession = None \<and>
   callsResolved (firstPipeline cudaSession (''cuda'' = ''opencilk'') mainModule) \<and>
   fst (lookup cudaSession 5 ''main'') = Returned (Inr 4096) \<and>
   translateModuleToLLVMIR hostWithoutDylib () = Some emptyModule \<and>
   transformer hostWithoutDylib = None \<and>
   createJITDylib hostWithoutDylib (fst (uniqueName (jitDylibNumbers hostWithoutDylib) 0)) =
     Inl ''Duplicate definition of symbol'' \<and>
   fst (loadModule hostWithoutDylib 0 (Some ())) =
     Returned (Inl (JITError ''Duplicate definition of symbol''))"
proof -
  have sym: "symbols cudaSession 5 ''main'' = NotCompiled mainModule"
    "linkObject cudaSession () ''main'' = Inr 4096"
    by (simp_all add: cudaSession_def)
  have main: "fst (lookup cudaSession 5 ''main'') = Returned (Inr 4096)"
    by (simp add: lookup_def LLJIT_lookup_def cudaSession_compiles sym)
  have resolved: "callsResolved (firstPipeline cudaSession (''cuda'' = ''opencilk'') mainModule)"
    by (simp add: callsResolved_def cudaSession_def mainModule_def)
  have null: "symbols cudaSession 5 ''null'' = Materialized 0"
    "symbols cudaSession 5 ''main'' = NotCompiled mainModule"
    "getenv cudaSession ''NM_TAPIRTARGET'' = Some ''cuda''"
    "lateTransformer cudaSession = None"
    by (simp_all add: cudaSession_def)
  from engine_failures_as_errors [of cudaSession 5 "''null''" "Inl (StringError ''looked up function is null'')"
      mainModule "''cuda''" hostWithoutDylib 0 "Some ()"
      "JITError ''Duplicate definition of symbol''" "()" emptyModule
      "''Duplicate definition of symbol''"]
  have a: "lookup cudaSession 5 ''null'' =
      (Returned (Inl (StringError ''looked up function is null'')), cudaSession)"
    and b: "fst (loadModule hostWithoutDylib 0 (Some ())) =
      Returned (Inl (JITError ''Duplicate definition of symbol''))"
    by (simp_all add: null hostWithoutDylib_def hostWithoutLibraries_def hostWithoutKitcuda_def)
  from a b main resolved null show ?thesis
    by (simp add: hostWithoutDylib_def hostWithoutLibraries_def hostWithoutKitcuda_def)
qed

end
